theory Spec2Isabelle
  imports Main "HOL-Library.Char_ord" "HOL-Library.List_Lexorder" "HOL-Library.Option_ord"
    "HOL-Library.Product_Lexorder"
begin

text \<open>
  The category and image services of the gallery backend (\<open>src/services\<close>), with the models
  (\<open>src/models\<close>), the error handler and the two routes the properties need, as functions
  on an explicit state: the two collections of the database and the log of the requests
  sent to the asset host.

  What the code takes from outside is an argument: the current time, the \<open>_id\<close> of a new
  document, the answer of the asset host to an upload or a delete, the URL builder of the
  asset host, and the regular-expression engine. An operation returns its result, an
  error or a value, together with the state it leaves; a thrown error is the left
  summand.

  The database library is modelled by its contract: setters (\<open>trim\<close>) run when a document
  is constructed and on the values of an update; \<open>save()\<close> validates the document,
  runs the schema's \<open>pre('save')\<close> hooks and writes the modified paths, and writes nothing
  when no path is modified; \<open>findByIdAndUpdate\<close>, \<open>findByIdAndDelete\<close> and \<open>deleteMany\<close> are queries and
  run neither \<open>save\<close> nor \<open>remove\<close> hooks; a unique index rejects an insert or update with
  the duplicate-key error 11000; \<open>populate\<close> fills a reference and never removes the
  document that holds it.

  Two kinds of JavaScript value are narrower here than in the language. A string is a
  sequence of code units below 256 (the Latin-1 range), on which \<open>trim\<close>, \<open>toLowerCase\<close>
  and the regular expressions of the source are written out in full. A number is an
  integer-valued double: an integer of at most 53 significant bits, with the rounding of
  an addition written out.
\<close>

section \<open>Strings\<close>

text \<open>
  A character is a code unit from 0 to 255. In this range \<open>toLowerCase\<close> maps \<open>A\<close>..\<open>Z\<close> to
  \<open>a\<close>..\<open>z\<close> and the capital letters \<open>0xC0\<close>..\<open>0xDE\<close> (without the multiplication sign
  \<open>0xD7\<close>) to the letters 32 places above them, and leaves every other character alone
  (\<open>digit7\<close> is the highest bit of a character, set from \<open>0x80\<close> on): the length of a string
  does not change, which is not so for every string of the language. \<open>trim\<close> removes white space and line terminators from both ends: tab, line
  feed, vertical tab, form feed, carriage return, space and the no-break space \<open>0xA0\<close>.
\<close>

definition toLowerChar :: "char \<Rightarrow> char" where
  "toLowerChar c =
     (case map_of
             (if digit7 c
              then zip [CHR 0xC0, CHR 0xC1, CHR 0xC2, CHR 0xC3, CHR 0xC4, CHR 0xC5, CHR 0xC6,
                        CHR 0xC7, CHR 0xC8, CHR 0xC9, CHR 0xCA, CHR 0xCB, CHR 0xCC, CHR 0xCD,
                        CHR 0xCE, CHR 0xCF, CHR 0xD0, CHR 0xD1, CHR 0xD2, CHR 0xD3, CHR 0xD4,
                        CHR 0xD5, CHR 0xD6, CHR 0xD8, CHR 0xD9, CHR 0xDA, CHR 0xDB, CHR 0xDC,
                        CHR 0xDD, CHR 0xDE]
                       [CHR 0xE0, CHR 0xE1, CHR 0xE2, CHR 0xE3, CHR 0xE4, CHR 0xE5, CHR 0xE6,
                        CHR 0xE7, CHR 0xE8, CHR 0xE9, CHR 0xEA, CHR 0xEB, CHR 0xEC, CHR 0xED,
                        CHR 0xEE, CHR 0xEF, CHR 0xF0, CHR 0xF1, CHR 0xF2, CHR 0xF3, CHR 0xF4,
                        CHR 0xF5, CHR 0xF6, CHR 0xF8, CHR 0xF9, CHR 0xFA, CHR 0xFB, CHR 0xFC,
                        CHR 0xFD, CHR 0xFE]
              else zip ''ABCDEFGHIJKLMNOPQRSTUVWXYZ'' ''abcdefghijklmnopqrstuvwxyz'') c of
        Some l \<Rightarrow> l
      | None \<Rightarrow> c)"

definition toLowerCase :: "string \<Rightarrow> string" where
  "toLowerCase s = map toLowerChar s"

definition is_white :: "char \<Rightarrow> bool" where
  "is_white c = (c \<in> {CHR 0x09, CHR 0x0A, CHR 0x0B, CHR 0x0C, CHR 0x0D, CHR '' '', CHR 0xA0})"

definition trim :: "string \<Rightarrow> string" where
  "trim s = rev (dropWhile is_white (rev (dropWhile is_white s)))"

text \<open>
  \<^verbatim>\<open>.replace(/[^a-z0-9]+/g, '-')\<close>: the scan copies the characters of \<open>a-z0-9\<close> and writes
  one hyphen for each maximal run of other characters. The flag says whether the scan is
  inside such a run.
\<close>

definition is_lower_alnum :: "char \<Rightarrow> bool" where
  "is_lower_alnum c = (c \<in> set ''abcdefghijklmnopqrstuvwxyz0123456789'')"

fun replace_runs :: "bool \<Rightarrow> string \<Rightarrow> string" where
  "replace_runs in_run [] = []"
| "replace_runs in_run (c # cs) =
     (if is_lower_alnum c then c # replace_runs False cs
      else if in_run then replace_runs True cs
      else CHR ''-'' # replace_runs True cs)"

text \<open>
  \<^verbatim>\<open>.replace(/(^-|-$)/g, '')\<close>: a hyphen at position 0 is removed, and a hyphen at the last
  position of the input is removed (one character each; the two matches do not overlap).
\<close>

definition replace_edge_hyphens :: "string \<Rightarrow> string" where
  "replace_edge_hyphens s =
     (let s1 = (case s of [] \<Rightarrow> [] | c # cs \<Rightarrow> if c = CHR ''-'' then cs else s)
      in if s1 \<noteq> [] \<and> last s1 = CHR ''-'' then butlast s1 else s1)"

text \<open>The expression of the category schema's pre-save hook.\<close>

definition slug_of_name :: "string \<Rightarrow> string" where
  "slug_of_name name = replace_edge_hyphens (replace_runs False (toLowerCase name))"

section \<open>Numbers\<close>

text \<open>
  A JavaScript number is a double. The numbers of the model are the integer-valued
  doubles, held as integers: \<open>is_double x\<close> says that \<open>x\<close> is one, an integer of at most 53
  significant bits and below \<open>2 ^ 1024\<close>. \<open>bit_length n\<close> is the number of binary digits of
  \<open>n\<close>; \<open>round_half_even n k\<close> is \<open>n / 2 ^ k\<close> rounded to the nearest integer, a tie to the
  even one; \<open>to_double\<close> keeps the 53 leading bits of an integer, so rounded. \<open>js_add\<close> is
  \<open>+\<close> as the language computes it: the exact sum, rounded. (The sum of a double and 1
  never exceeds the largest double, so the bound \<open>2 ^ 1024\<close> plays no part in it.)
\<close>

fun bit_length :: "nat \<Rightarrow> nat" where
  "bit_length n = (if n = 0 then 0 else Suc (bit_length (n div 2)))"

declare bit_length.simps [simp del]

definition round_half_even :: "nat \<Rightarrow> nat \<Rightarrow> nat" where
  "round_half_even n k =
     (let q = n div 2 ^ k; r = n mod 2 ^ k
      in if 2 * r < 2 ^ k \<or> (2 * r = 2 ^ k \<and> even q) then q else q + 1)"

definition to_double_nat :: "nat \<Rightarrow> nat" where
  "to_double_nat n = round_half_even n (bit_length n - 53) * 2 ^ (bit_length n - 53)"

definition to_double :: "int \<Rightarrow> int" where
  "to_double x =
     (if x < 0 then - int (to_double_nat (nat (- x))) else int (to_double_nat (nat x)))"

definition is_double :: "int \<Rightarrow> bool" where
  "is_double x = (2 ^ (bit_length (nat \<bar>x\<bar>) - 53) dvd x \<and> \<bar>x\<bar> < 2 ^ 1024)"

definition js_add :: "int \<Rightarrow> int \<Rightarrow> int" where
  "js_add x y = to_double (x + y)"

text \<open>
  \<open>$inc\<close> of the database on a stored number. The driver writes a number as a 32-bit
  integer when it is one and as a double otherwise; the database adds integers exactly and
  doubles as doubles. (A count that has left the 32-bit range by increments is a 64-bit
  integer in the database and exact there beyond \<open>2 ^ 53\<close>, where this function rounds.)
\<close>

definition mongo_inc :: "int \<Rightarrow> int \<Rightarrow> int" where
  "mongo_inc x d = (if - (2 ^ 31) \<le> x \<and> x < 2 ^ 31 then x + d else js_add x d)"

section \<open>Errors\<close>

text \<open>
  A thrown JavaScript error, with the properties the error handler reads. \<open>err_name\<close> is
  what \<open>err.name\<close> reads; \<open>err_name_own\<close> says whether \<open>name\<close> is an own enumerable property
  of the object, which is what a copy \<^verbatim>\<open>{ ...err }\<close> keeps. The classes of the errors below
  (\<open>Error\<close> and its subclass \<open>AppError\<close>, the errors of Mongoose and of the database driver)
  define the name on the prototype. \<open>err_code\<close> and \<open>err_keyValue\<close> are own properties, set
  by the database driver on a unique-index violation (code 11000, \<open>keyValue\<close> the offending
  field and value); \<open>statusCode\<close> and \<open>isOperational\<close> are own properties of an \<open>AppError\<close>.
  The message of a validation error is abridged to that of the first failing validator.
\<close>

record js_error =
  err_name :: string
  err_name_own :: bool
  err_message :: string
  err_code :: "nat option"
  err_keyValue :: "(string \<times> string) option"
  err_statusCode :: "nat option"
  err_isOperational :: bool

definition Error :: "string \<Rightarrow> js_error" where
  "Error msg = \<lparr>err_name = ''Error'', err_name_own = False, err_message = msg, err_code = None,
     err_keyValue = None, err_statusCode = None, err_isOperational = False\<rparr>"

definition AppError :: "string \<Rightarrow> nat \<Rightarrow> js_error" where
  "AppError msg statusCode = \<lparr>err_name = ''Error'', err_name_own = False, err_message = msg, err_code = None,
     err_keyValue = None, err_statusCode = Some statusCode, err_isOperational = True\<rparr>"

definition DuplicateKeyError :: "string \<Rightarrow> string \<Rightarrow> js_error" where
  "DuplicateKeyError field val = \<lparr>err_name = ''MongoServerError'', err_name_own = False,
     err_message = ''E11000 duplicate key error'', err_code = Some 11000,
     err_keyValue = Some (field, val), err_statusCode = None, err_isOperational = False\<rparr>"

definition ValidationError :: "string \<Rightarrow> js_error" where
  "ValidationError msg = \<lparr>err_name = ''ValidationError'', err_name_own = False, err_message = msg, err_code = None,
     err_keyValue = None, err_statusCode = None, err_isOperational = False\<rparr>"

definition CastError :: "string \<Rightarrow> js_error" where
  "CastError msg = \<lparr>err_name = ''CastError'', err_name_own = False, err_message = msg, err_code = None,
     err_keyValue = None, err_statusCode = None, err_isOperational = False\<rparr>"

definition MongoServerError :: "string \<Rightarrow> js_error" where
  "MongoServerError msg = \<lparr>err_name = ''MongoServerError'', err_name_own = False, err_message = msg, err_code = None,
     err_keyValue = None, err_statusCode = None, err_isOperational = False\<rparr>"

definition SyntaxError :: "string \<Rightarrow> js_error" where
  "SyntaxError msg = \<lparr>err_name = ''SyntaxError'', err_name_own = False, err_message = msg, err_code = None,
     err_keyValue = None, err_statusCode = None, err_isOperational = False\<rparr>"

section \<open>The error handler (middleware/errorHandler.js)\<close>

record 'a http_response =
  res_status :: nat
  res_success :: bool
  res_message :: string
  res_data :: "'a option"

definition handleDuplicateKeyError :: "js_error \<Rightarrow> js_error" where
  "handleDuplicateKeyError err =
     (case err_keyValue err of
        Some (field, val) \<Rightarrow> AppError (field @ '' '' @ [CHR 0x27] @ val @ [CHR 0x27] @ '' already exists'') 400
      | None \<Rightarrow> AppError ''undefined already exists'' 400)"

definition handleValidationError :: "js_error \<Rightarrow> js_error" where
  "handleValidationError err = AppError (''Invalid input data: '' @ err_message err) 400"

definition handleCastError :: "js_error \<Rightarrow> js_error" where
  "handleCastError err = AppError (''Invalid '' @ err_message err) 400"

definition sendErrorDev :: "js_error \<Rightarrow> 'a http_response" where
  "sendErrorDev err = \<lparr>res_status = (case err_statusCode err of Some s \<Rightarrow> s | None \<Rightarrow> 500),
     res_success = False, res_message = err_message err, res_data = None\<rparr>"

definition sendErrorProd :: "js_error \<Rightarrow> 'a http_response" where
  "sendErrorProd err =
     (if err_isOperational err
      then \<lparr>res_status = (case err_statusCode err of Some s \<Rightarrow> s | None \<Rightarrow> 500),
             res_success = False, res_message = err_message err, res_data = None\<rparr>
      else \<lparr>res_status = 500, res_success = False, res_message = ''Something went wrong!'',
             res_data = None\<rparr>)"

text \<open>
  \<open>errorHandler\<close>: the status code defaults to 500 and is written to the error itself;
  the tests that follow read the copy \<^verbatim>\<open>let error = { ...err }\<close>, which holds the own
  enumerable properties of the error (\<open>spread_name\<close> is the \<open>name\<close> of the copy) and is given
  the message. The error is replaced according to that name or the code, one test after
  the other as in the source, and sent in the format of the environment (\<open>development\<close> is
  \<^verbatim>\<open>NODE_ENV === 'development'\<close>). An error whose name is on the prototype passes the
  tests on the name untouched: a validation or cast error of Mongoose is sent with the
  default status 500.
\<close>

definition spread_name :: "js_error \<Rightarrow> string option" where
  "spread_name err = (if err_name_own err then Some (err_name err) else None)"

definition errorHandler :: "bool \<Rightarrow> js_error \<Rightarrow> 'a http_response" where
  "errorHandler development err =
     (let e0 = err\<lparr>err_statusCode := Some (case err_statusCode err of Some s \<Rightarrow> if s = 0 then 500 else s | None \<Rightarrow> 500)\<rparr>;
          e1 = (if spread_name e0 = Some ''CastError'' then handleCastError e0 else e0);
          e2 = (if err_code e1 = Some 11000 then handleDuplicateKeyError e1 else e1);
          e3 = (if spread_name e2 = Some ''ValidationError'' then handleValidationError e2 else e2);
          e4 = (if spread_name e3 = Some ''JsonWebTokenError''
                then AppError ''Invalid token. Please log in again!'' 401 else e3);
          e5 = (if spread_name e4 = Some ''TokenExpiredError''
                then AppError ''Your token has expired! Please log in again.'' 401 else e4)
      in if development then sendErrorDev e5 else sendErrorProd e5)"

section \<open>Documents and the state\<close>

type_synonym objectId = nat

record category =
  c_id :: objectId
  c_name :: string
  c_description :: "string option"
  c_slug :: string
  c_isActive :: bool
  c_imageCount :: int
  c_createdAt :: nat
  c_updatedAt :: nat

record image =
  i_id :: objectId
  i_title :: string
  i_description :: "string option"
  i_category :: objectId
  i_cloudinaryId :: string
  i_imageUrl :: string
  i_thumbnailUrl :: string
  i_originalFileName :: string
  i_fileSize :: nat
  i_mimeType :: string
  i_width :: nat
  i_height :: nat
  i_tags :: "string list"
  i_isActive :: bool
  i_isFeatured :: bool
  i_viewCount :: int
  i_createdAt :: nat
  i_updatedAt :: nat

text \<open>A request sent to the asset host (Cloudinary), by the identifier it names.\<close>

datatype cloudinary_call = Upload string | Destroy string

text \<open>
  The two collections, in insertion order, and the log of the requests sent to the asset
  host. A fresh \<open>_id\<close> and the current time are inputs of the operations that need them.
\<close>

record state =
  categories :: "category list"
  images :: "image list"
  cloudinary_calls :: "cloudinary_call list"

definition findCategoryById :: "state \<Rightarrow> objectId \<Rightarrow> category option" where
  "findCategoryById st cid = find (\<lambda>c. c_id c = cid) (categories st)"

definition findImageById :: "state \<Rightarrow> objectId \<Rightarrow> image option" where
  "findImageById st iid = find (\<lambda>i. i_id i = iid) (images st)"

text \<open>\<open>updateOne\<close> by \<open>_id\<close>: the first document with the id is replaced by its image under \<open>f\<close>.\<close>

fun update_first :: "('a \<Rightarrow> bool) \<Rightarrow> ('a \<Rightarrow> 'a) \<Rightarrow> 'a list \<Rightarrow> 'a list" where
  "update_first p f [] = []"
| "update_first p f (x # xs) = (if p x then f x # xs else x # update_first p f xs)"

text \<open>\<open>deleteOne\<close> by \<open>_id\<close>: the first document with the id is removed.\<close>

fun delete_first :: "('a \<Rightarrow> bool) \<Rightarrow> 'a list \<Rightarrow> 'a list" where
  "delete_first p [] = []"
| "delete_first p (x # xs) = (if p x then xs else x # delete_first p xs)"

section \<open>Category model (models/Category.js) and service (services/CategoryService.js)\<close>

text \<open>
  The object given to \<open>new Category\<close>, by the paths of the schema it can name, each value
  of the type of its path. The route passes the body of the request, in which the
  validation middleware keeps every key (below); the service is also called with a name
  and a description alone. (A body that names \<open>_id\<close> or a timestamp is not modelled: the
  id and the time of a new document are the inputs \<open>oid\<close> and \<open>now\<close>.)
\<close>

record categoryData =
  cd_name :: "string option"
  cd_description :: "string option"
  cd_slug :: "string option"
  cd_isActive :: "bool option"
  cd_imageCount :: "int option"

text \<open>The first error of a list of validation results.\<close>

fun first_error :: "js_error option list \<Rightarrow> js_error option" where
  "first_error [] = None"
| "first_error (Some e # es) = Some e"
| "first_error (None # es) = first_error es"

text \<open>
  The schema's validators, run by \<open>save\<close> before the pre-save hook: \<open>name\<close> is required,
  at most 50 and at least 2 characters; \<open>description\<close> at most 200; \<open>imageCount\<close> at least
  0. The strings are trimmed by their setters when the document is constructed.
\<close>

definition validate_name :: "string option \<Rightarrow> js_error option" where
  "validate_name name =
     (case name of
        None \<Rightarrow> Some (ValidationError ''Category name is required'')
      | Some n \<Rightarrow>
          if n = [] then Some (ValidationError ''Category name is required'')
          else if 50 < length n then Some (ValidationError ''Category name cannot exceed 50 characters'')
          else if length n < 2 then Some (ValidationError ''Category name must be at least 2 characters long'')
          else None)"

definition validate_category_description :: "string option \<Rightarrow> js_error option" where
  "validate_category_description description =
     (case description of
        None \<Rightarrow> None
      | Some d \<Rightarrow> if 200 < length d
                  then Some (ValidationError ''Description cannot exceed 200 characters'')
                  else None)"

definition validate_min_0 :: "string \<Rightarrow> int \<Rightarrow> js_error option" where
  "validate_min_0 path v =
     (if v < 0
      then Some (ValidationError (''Path '' @ path @ '' is less than minimum allowed value (0)''))
      else None)"

definition categorySchema_validate ::
  "string option \<Rightarrow> string option \<Rightarrow> int \<Rightarrow> js_error option" where
  "categorySchema_validate name description imageCount =
     first_error [validate_name name, validate_category_description description,
                  validate_min_0 ''imageCount'' imageCount]"

text \<open>The validation of \<open>new Category(categoryData)\<close>: the paths after setters and defaults.\<close>

definition categoryData_validate :: "categoryData \<Rightarrow> js_error option" where
  "categoryData_validate d =
     categorySchema_validate (map_option trim (cd_name d)) (map_option trim (cd_description d))
       (case cd_imageCount d of Some n \<Rightarrow> n | None \<Rightarrow> 0)"

text \<open>
  The unique indexes of the category collection: \<open>_id\<close>, \<open>name\<close> and \<open>slug\<close>. The result is
  the duplicate-key error of the first index that the document \<open>c\<close> violates against the
  documents \<open>cs\<close>.
\<close>

definition category_unique_violation :: "category list \<Rightarrow> category \<Rightarrow> js_error option" where
  "category_unique_violation cs c =
     (if c_id c \<in> set (map c_id cs) then Some (DuplicateKeyError ''_id'' '''')
      else if c_name c \<in> set (map c_name cs) then Some (DuplicateKeyError ''name'' (c_name c))
      else if c_slug c \<in> set (map c_slug cs) then Some (DuplicateKeyError ''slug'' (c_slug c))
      else None)"

text \<open>
  \<open>categorySchema.pre('save')\<close>: when the name is modified the slug is generated from it;
  the slug's own setters lowercase and trim the value assigned.
\<close>

definition categorySchema_pre_save :: "bool \<Rightarrow> category \<Rightarrow> category" where
  "categorySchema_pre_save nameModified c =
     (if nameModified then c\<lparr>c_slug := trim (toLowerCase (slug_of_name (c_name c)))\<rparr> else c)"

text \<open>
  \<open>new Category(categoryData)\<close> followed by \<open>save()\<close>: setters and defaults, validation, the
  pre-save hook (the name of a new document counts as modified, so a slug given in the
  data is overwritten), then the insert under the unique indexes.
\<close>

definition createCategory ::
  "state \<Rightarrow> nat \<Rightarrow> objectId \<Rightarrow> categoryData \<Rightarrow> (js_error + category) \<times> state" where
  "createCategory st now oid categoryData =
     (case categoryData_validate categoryData of
        Some e \<Rightarrow> (Inl e, st)
      | None \<Rightarrow>
          (case cd_name categoryData of
             None \<Rightarrow> (Inl (ValidationError ''Category name is required''), st)
           | Some n \<Rightarrow>
               (let doc = categorySchema_pre_save True
                            \<lparr>c_id = oid, c_name = trim n,
                             c_description = map_option trim (cd_description categoryData),
                             c_slug = (case cd_slug categoryData of
                                         Some s \<Rightarrow> trim (toLowerCase s) | None \<Rightarrow> []),
                             c_isActive = (case cd_isActive categoryData of
                                             Some b \<Rightarrow> b | None \<Rightarrow> True),
                             c_imageCount = (case cd_imageCount categoryData of
                                               Some k \<Rightarrow> k | None \<Rightarrow> 0),
                             c_createdAt = now, c_updatedAt = now\<rparr>
                in case category_unique_violation (categories st) doc of
                     Some e \<Rightarrow> (Inl e, st)
                   | None \<Rightarrow> (Inr doc, st\<lparr>categories := categories st @ [doc]\<rparr>))))"

text \<open>
  \<open>findByIdAndUpdate(categoryId, updateData, {new: true, runValidators: true})\<close>: the update
  validators check the paths of the update, the first document with the id is updated in
  place under the unique index on \<open>name\<close>, and \<open>updatedAt\<close> is set. This is a query, not
  \<open>save()\<close>: Mongoose runs no \<open>pre('save')\<close> hook for it, so the slug is left as stored.
  The record holds the updates of the two paths of the request schema.
\<close>

record categoryUpdate =
  cu_name :: "string option"
  cu_description :: "string option"

definition categoryUpdate_validate :: "categoryUpdate \<Rightarrow> js_error option" where
  "categoryUpdate_validate u =
     (case cu_name u of
        Some n \<Rightarrow>
          if n = [] then Some (ValidationError ''Category name is required'')
          else if 50 < length n then Some (ValidationError ''Category name cannot exceed 50 characters'')
          else if length n < 2 then Some (ValidationError ''Category name must be at least 2 characters long'')
          else (case cu_description u of
                  Some d \<Rightarrow> if 200 < length d
                            then Some (ValidationError ''Description cannot exceed 200 characters'')
                            else None
                | None \<Rightarrow> None)
      | None \<Rightarrow>
          (case cu_description u of
             Some d \<Rightarrow> if 200 < length d
                       then Some (ValidationError ''Description cannot exceed 200 characters'')
                       else None
           | None \<Rightarrow> None))"

definition apply_categoryUpdate :: "nat \<Rightarrow> categoryUpdate \<Rightarrow> category \<Rightarrow> category" where
  "apply_categoryUpdate now u c =
     c\<lparr>c_name := (case cu_name u of Some n \<Rightarrow> n | None \<Rightarrow> c_name c),
       c_description := (case cu_description u of Some d \<Rightarrow> Some d | None \<Rightarrow> c_description c),
       c_updatedAt := now\<rparr>"

definition updateCategory ::
  "state \<Rightarrow> nat \<Rightarrow> objectId \<Rightarrow> categoryUpdate \<Rightarrow> (js_error + category) \<times> state" where
  "updateCategory st now categoryId updateData =
     (let u = \<lparr>cu_name = map_option trim (cu_name updateData),
                cu_description = map_option trim (cu_description updateData)\<rparr>
      in case categoryUpdate_validate u of
           Some e \<Rightarrow> (Inl e, st)
         | None \<Rightarrow>
             (case findCategoryById st categoryId of
                None \<Rightarrow> (Inl (Error ''Category not found''), st)
              | Some old \<Rightarrow>
                  (let category = apply_categoryUpdate now u old;
                       others = delete_first (\<lambda>c. c_id c = categoryId) (categories st)
                   in if c_name category \<in> set (map c_name others)
                      then (Inl (DuplicateKeyError ''name'' (c_name category)), st)
                      else (Inr category,
                            st\<lparr>categories :=
                                 update_first (\<lambda>c. c_id c = categoryId)
                                   (apply_categoryUpdate now u) (categories st)\<rparr>))))"

text \<open>
  \<open>deleteCategory\<close>: the category is looked up, \<open>Image.deleteMany({category: categoryId})\<close>
  removes the image documents, \<open>findByIdAndDelete\<close> removes the category. The service
  sends nothing to the asset host.
\<close>

definition deleteCategory ::
  "state \<Rightarrow> objectId \<Rightarrow> (js_error + string \<times> nat) \<times> state" where
  "deleteCategory st categoryId =
     (case findCategoryById st categoryId of
        None \<Rightarrow> (Inl (Error ''Category not found''), st)
      | Some category \<Rightarrow>
          (let deletedCount = length (filter (\<lambda>i. i_category i = categoryId) (images st));
               st1 = st\<lparr>images := filter (\<lambda>i. i_category i \<noteq> categoryId) (images st)\<rparr>;
               st2 = st1\<lparr>categories := delete_first (\<lambda>c. c_id c = categoryId) (categories st1)\<rparr>
           in (Inr (c_name category, deletedCount), st2)))"

section \<open>The route POST /categories\<close>



section \<open>Image model (models/Image.js)\<close>

definition validate_title :: "string \<Rightarrow> js_error option" where
  "validate_title t =
     (if t = [] then Some (ValidationError ''Image title is required'')
      else if 100 < length t then Some (ValidationError ''Title cannot exceed 100 characters'')
      else None)"

definition validate_description :: "string option \<Rightarrow> js_error option" where
  "validate_description d =
     (case d of
        Some s \<Rightarrow> if 500 < length s
                  then Some (ValidationError ''Description cannot exceed 500 characters'')
                  else None
      | None \<Rightarrow> None)"

definition validate_tags :: "string list \<Rightarrow> js_error option" where
  "validate_tags ts =
     (if list_ex (\<lambda>t. 30 < length t) ts
      then Some (ValidationError ''Tag cannot exceed 30 characters'') else None)"

definition validate_viewCount :: "int \<Rightarrow> js_error option" where
  "validate_viewCount v = validate_min_0 ''viewCount'' v"

definition validate_required :: "string \<Rightarrow> string \<Rightarrow> js_error option" where
  "validate_required msg v = (if v = [] then Some (ValidationError msg) else None)"

definition imageSchema_validate :: "image \<Rightarrow> js_error option" where
  "imageSchema_validate img =
     first_error
       [validate_title (i_title img),
        validate_description (i_description img),
        validate_required ''Cloudinary ID is required'' (i_cloudinaryId img),
        validate_required ''Image URL is required'' (i_imageUrl img),
        validate_required ''Thumbnail URL is required'' (i_thumbnailUrl img),
        validate_required ''Original file name is required'' (i_originalFileName img),
        validate_required ''MIME type is required'' (i_mimeType img),
        validate_tags (i_tags img),
        validate_viewCount (i_viewCount img)]"

text \<open>
  \<open>Category.findByIdAndUpdate(id, {$inc: {imageCount: d}})\<close>, as the two image hooks call
  it: no validators, \<open>updatedAt\<close> set, nothing happens when no category has the id.
\<close>

definition inc_imageCount :: "nat \<Rightarrow> objectId \<Rightarrow> int \<Rightarrow> state \<Rightarrow> state" where
  "inc_imageCount now cid d st =
     st\<lparr>categories :=
          update_first (\<lambda>c. c_id c = cid)
            (\<lambda>c. c\<lparr>c_imageCount := mongo_inc (c_imageCount c) d, c_updatedAt := now\<rparr>)
            (categories st)\<rparr>"

text \<open>\<open>imageSchema.pre('save')\<close>, run by \<open>save()\<close> after validation.\<close>

definition imageSchema_pre_save :: "nat \<Rightarrow> bool \<Rightarrow> bool \<Rightarrow> image \<Rightarrow> state \<Rightarrow> state" where
  "imageSchema_pre_save now isNew categoryModified img st =
     (if isNew \<or> categoryModified then inc_imageCount now (i_category img) 1 st else st)"

text \<open>
  \<open>imageSchema.pre('remove')\<close>. Mongoose runs this document hook for \<open>doc.remove()\<close> only;
  the services delete with \<open>findByIdAndDelete\<close> and \<open>deleteMany\<close>, which are queries, so no
  operation below calls it.
\<close>

definition imageSchema_pre_remove :: "nat \<Rightarrow> image \<Rightarrow> state \<Rightarrow> state" where
  "imageSchema_pre_remove now img st = inc_imageCount now (i_category img) (- 1) st"

definition image_unique_violation :: "image list \<Rightarrow> image \<Rightarrow> js_error option" where
  "image_unique_violation imgs img =
     (if i_id img \<in> set (map i_id imgs) then Some (DuplicateKeyError ''_id'' '''')
      else if i_cloudinaryId img \<in> set (map i_cloudinaryId imgs)
      then Some (DuplicateKeyError ''cloudinaryId'' (i_cloudinaryId img))
      else None)"

text \<open>\<open>save()\<close> of a new image: validation, the pre-save hook, the insert.\<close>

definition Image_save_new :: "state \<Rightarrow> nat \<Rightarrow> image \<Rightarrow> (js_error + image) \<times> state" where
  "Image_save_new st now img =
     (case imageSchema_validate img of
        Some e \<Rightarrow> (Inl e, st)
      | None \<Rightarrow>
          (let st1 = imageSchema_pre_save now True False img st
           in case image_unique_violation (images st1) img of
                Some e \<Rightarrow> (Inl e, st1)
              | None \<Rightarrow> (Inr img, st1\<lparr>images := images st1 @ [img]\<rparr>)))"

text \<open>
  \<open>incrementViewCount\<close>: \<open>this.viewCount += 1; return this.save()\<close> on a loaded document.
  The sum is a sum of doubles. \<open>save()\<close> validates the document: the paths it was loaded
  with and the modified one (\<open>validateModifiedOnly\<close> is not set). When the sum is the old
  value (from \<open>2 ^ 53\<close> on the next integer is not a double) no path is modified: \<open>save()\<close>
  writes nothing and leaves \<open>updatedAt\<close>. Otherwise \<open>viewCount\<close> is the one modified path:
  the pre-save hook sees neither a new document nor a modified category, and the stored
  document gets the new count and \<open>updatedAt\<close>.
\<close>

definition incrementViewCount :: "state \<Rightarrow> nat \<Rightarrow> image \<Rightarrow> (js_error + image) \<times> state" where
  "incrementViewCount st now img =
     (let viewCount = js_add (i_viewCount img) 1
      in case imageSchema_validate (img\<lparr>i_viewCount := viewCount\<rparr>) of
           Some e \<Rightarrow> (Inl e, st)
         | None \<Rightarrow>
             if viewCount = i_viewCount img then (Inr img, st)
             else
               (let img' = img\<lparr>i_viewCount := viewCount, i_updatedAt := now\<rparr>;
                    st1 = imageSchema_pre_save now False False img' st
                in (Inr img',
                    st1\<lparr>images :=
                          update_first (\<lambda>i. i_id i = i_id img)
                            (\<lambda>i. i\<lparr>i_viewCount := viewCount, i_updatedAt := now\<rparr>)
                            (images st1)\<rparr>)))"

section \<open>Image service (services/ImageService.js)\<close>

text \<open>Decimal digits of a number, as template strings print \<open>Date.now()\<close>.\<close>

fun string_of_nat :: "nat \<Rightarrow> string" where
  "string_of_nat n =
     (if n < 10 then [''0123456789'' ! n]
      else string_of_nat (n div 10) @ [''0123456789'' ! (n mod 10)])"

declare string_of_nat.simps [simp del]

record imageData =
  d_title :: "string option"
  d_description :: "string option"
  d_tags :: "string list"
  d_isFeatured :: bool
  d_originalFileName :: string

text \<open>What the asset host answers to an upload.\<close>

record cloudinaryResult =
  r_public_id :: string
  r_secure_url :: string
  r_bytes :: nat
  r_format :: string
  r_width :: nat
  r_height :: nat

text \<open>
  \<open>uploadImage\<close>. The answer of the asset host (\<open>remote\<close>: a rejection or the upload's
  result) and its URL builder \<open>getImageUrl\<close> are inputs, as are the time and the id of the
  new document. A missing title is the empty string, which \<open>required\<close> rejects alike.
\<close>

definition uploadImage ::
  "(string \<Rightarrow> string) \<Rightarrow> state \<Rightarrow> nat \<Rightarrow> objectId \<Rightarrow> js_error + cloudinaryResult \<Rightarrow>
     imageData \<Rightarrow> objectId \<Rightarrow> (js_error + image) \<times> state" where
  "uploadImage getImageUrl st now oid remote imageData categoryId =
     (case findCategoryById st categoryId of
        None \<Rightarrow> (Inl (Error ''Category not found''), st)
      | Some category \<Rightarrow>
          (let st1 = st\<lparr>cloudinary_calls := cloudinary_calls st @
                        [Upload (''marriage-hall/'' @ toLowerCase (c_name category) @ ''/'' @
                                 string_of_nat now)]\<rparr>
           in case remote of
                Inl e \<Rightarrow> (Inl e, st1)
              | Inr cloudinaryResult \<Rightarrow>
                  (let thumbnailUrl = getImageUrl (r_public_id cloudinaryResult);
                       img = \<lparr>i_id = oid,
                                i_title = (case d_title imageData of Some t \<Rightarrow> trim t | None \<Rightarrow> []),
                                i_description = map_option trim (d_description imageData),
                                i_category = categoryId,
                                i_cloudinaryId = r_public_id cloudinaryResult,
                                i_imageUrl = r_secure_url cloudinaryResult,
                                i_thumbnailUrl = thumbnailUrl,
                                i_originalFileName = d_originalFileName imageData,
                                i_fileSize = r_bytes cloudinaryResult,
                                i_mimeType = r_format cloudinaryResult,
                                i_width = r_width cloudinaryResult,
                                i_height = r_height cloudinaryResult,
                                i_tags = map trim (d_tags imageData),
                                i_isActive = True,
                                i_isFeatured = d_isFeatured imageData,
                                i_viewCount = 0,
                                i_createdAt = now,
                                i_updatedAt = now\<rparr>
                   in Image_save_new st1 now img)))"

text \<open>A populated category reference, with the selected fields.\<close>

record category_fields =
  f_id :: objectId
  f_name :: string
  f_slug :: string
  f_description :: "string option"

definition populate_category :: "state \<Rightarrow> bool \<Rightarrow> objectId \<Rightarrow> category_fields option" where
  "populate_category st with_description cid =
     map_option
       (\<lambda>c. \<lparr>f_id = c_id c, f_name = c_name c, f_slug = c_slug c,
             f_description = (if with_description then c_description c else None)\<rparr>)
       (findCategoryById st cid)"

text \<open>\<open>getImageById\<close>: \<open>findById\<close> has no filter on \<open>isActive\<close>.\<close>

definition getImageById ::
  "state \<Rightarrow> nat \<Rightarrow> objectId \<Rightarrow> (js_error + image \<times> category_fields option) \<times> state" where
  "getImageById st now imageId =
     (case findImageById st imageId of
        None \<Rightarrow> (Inl (Error ''Image not found''), st)
      | Some img \<Rightarrow>
          (let category = populate_category st True (i_category img)
           in case incrementViewCount st now img of
                (Inl e, st') \<Rightarrow> (Inl e, st')
              | (Inr img', st') \<Rightarrow> (Inr (img', category), st')))"

text \<open>
  \<open>updateImage\<close>: \<open>findByIdAndUpdate(imageId, updateData, {new: true, runValidators: true})\<close>.
  The update is whatever object the caller passes, and the route passes the body of the
  request with every key it came with; every path of the schema it names is written. No
  \<open>save\<close> hook runs. The record below holds the updates that name paths: those of the
  request schema and, of the others, \<open>isActive\<close> and \<open>viewCount\<close>. An update written with
  the operators of the database (\<open>$inc\<close>, \<open>$unset\<close>) is forwarded like any other and is
  not modelled; the properties below say nothing of what \<open>updateImage\<close> leaves alone.
\<close>

record imageUpdate =
  u_title :: "string option"
  u_description :: "string option"
  u_category :: "objectId option"
  u_tags :: "string list option"
  u_isFeatured :: "bool option"
  u_isActive :: "bool option"
  u_viewCount :: "int option"

definition imageUpdate_validate :: "imageUpdate \<Rightarrow> js_error option" where
  "imageUpdate_validate u =
     first_error
       [case u_title u of Some t \<Rightarrow> validate_title t | None \<Rightarrow> None,
        validate_description (u_description u),
        case u_tags u of Some ts \<Rightarrow> validate_tags ts | None \<Rightarrow> None,
        case u_viewCount u of Some v \<Rightarrow> validate_viewCount v | None \<Rightarrow> None]"

definition apply_imageUpdate :: "nat \<Rightarrow> imageUpdate \<Rightarrow> image \<Rightarrow> image" where
  "apply_imageUpdate now u i =
     i\<lparr>i_title := (case u_title u of Some t \<Rightarrow> t | None \<Rightarrow> i_title i),
       i_description := (case u_description u of Some d \<Rightarrow> Some d | None \<Rightarrow> i_description i),
       i_category := (case u_category u of Some c \<Rightarrow> c | None \<Rightarrow> i_category i),
       i_tags := (case u_tags u of Some ts \<Rightarrow> ts | None \<Rightarrow> i_tags i),
       i_isFeatured := (case u_isFeatured u of Some b \<Rightarrow> b | None \<Rightarrow> i_isFeatured i),
       i_isActive := (case u_isActive u of Some b \<Rightarrow> b | None \<Rightarrow> i_isActive i),
       i_viewCount := (case u_viewCount u of Some v \<Rightarrow> v | None \<Rightarrow> i_viewCount i),
       i_updatedAt := now\<rparr>"

definition updateImage ::
  "state \<Rightarrow> nat \<Rightarrow> objectId \<Rightarrow> imageUpdate \<Rightarrow>
     (js_error + image \<times> category_fields option) \<times> state" where
  "updateImage st now imageId updateData =
     (let u = updateData\<lparr>u_title := map_option trim (u_title updateData),
                         u_description := map_option trim (u_description updateData),
                         u_tags := map_option (map trim) (u_tags updateData)\<rparr>
      in case imageUpdate_validate u of
           Some e \<Rightarrow> (Inl e, st)
         | None \<Rightarrow>
             (case findImageById st imageId of
                None \<Rightarrow> (Inl (Error ''Image not found''), st)
              | Some old \<Rightarrow>
                  (let img = apply_imageUpdate now u old;
                       st' = st\<lparr>images := update_first (\<lambda>i. i_id i = imageId)
                                              (apply_imageUpdate now u) (images st)\<rparr>
                   in (Inr (img, populate_category st' False (i_category img)), st'))))"

text \<open>
  \<open>deleteImage\<close>: the asset is destroyed first; a rejection of the asset host (\<open>remote\<close>)
  is thrown and the document stays. \<open>findByIdAndDelete\<close> then removes the document.
\<close>

definition deleteImage ::
  "state \<Rightarrow> js_error option \<Rightarrow> objectId \<Rightarrow> (js_error + string \<times> string) \<times> state" where
  "deleteImage st remote imageId =
     (case findImageById st imageId of
        None \<Rightarrow> (Inl (Error ''Image not found''), st)
      | Some img \<Rightarrow>
          (let st1 = st\<lparr>cloudinary_calls := cloudinary_calls st @ [Destroy (i_cloudinaryId img)]\<rparr>
           in case remote of
                Some e \<Rightarrow> (Inl e, st1)
              | None \<Rightarrow>
                  (Inr (i_title img, i_cloudinaryId img),
                   st1\<lparr>images := delete_first (\<lambda>i. i_id i = imageId) (images st1)\<rparr>)))"

section \<open>Queries\<close>

text \<open>
  The regular-expression engine is an input of the queries that use one: \<open>rx p\<close> is the
  case-insensitive, unanchored matcher of the pattern \<open>p\<close>, or \<open>None\<close> when \<open>p\<close> is not a
  regular expression (\<open>new RegExp\<close> throws, the database rejects \<open>$regex\<close>).
\<close>

type_synonym regexp_engine = "string \<Rightarrow> (string \<Rightarrow> bool) option"

text \<open>
  \<open>.sort({key: 1})\<close> and \<open>.sort({key: -1})\<close>. Documents with equal keys keep their
  insertion order here; the database leaves their order open.
\<close>

definition sort_by_key :: "('a \<Rightarrow> 'k::linorder) \<Rightarrow> bool \<Rightarrow> 'a list \<Rightarrow> 'a list" where
  "sort_by_key f descending xs =
     (if descending then rev (sort_key f (rev xs)) else sort_key f xs)"

text \<open>
  The sort of the image list by a field name, which the route takes from the query
  unchecked. The database rejects a key with an empty component, with a component that
  starts with \<open>$\<close> (\<open>$natural\<close>, the order of the collection, apart) or with a null
  character. A missing value sorts before every value, and so does an empty array; an
  array sorts by its least element upwards and by its greatest downwards, and the key
  \<open>tags.n\<close> sorts by the element at the index \<open>n\<close>, which is missing in a shorter array; an
  embedded document sorts field by field. A key that is no path of the stored documents
  (a virtual, the version key, which is the same in every document here, or any other
  name) gives every document the same sort key, and the documents keep their order.
\<close>

fun split_dots :: "string \<Rightarrow> string list" where
  "split_dots [] = [[]]"
| "split_dots (c # cs) =
     (if c = CHR ''.'' then [] # split_dots cs
      else (case split_dots cs of p # ps \<Rightarrow> (c # p) # ps | [] \<Rightarrow> [[c]]))"

definition sort_key_rejected :: "string \<Rightarrow> bool" where
  "sort_key_rejected k =
     (CHR 0x00 \<in> set k \<or>
      (k \<noteq> ''$natural'' \<and>
       list_ex (\<lambda>p. p = [] \<or> hd p = CHR ''$'') (split_dots k)))"

definition least_tag :: "string list \<Rightarrow> string option" where
  "least_tag ts = (case ts of [] \<Rightarrow> None | t # r \<Rightarrow> Some (fold min r t))"

definition greatest_tag :: "string list \<Rightarrow> string option" where
  "greatest_tag ts = (case ts of [] \<Rightarrow> None | t # r \<Rightarrow> Some (fold max r t))"

definition tag_at :: "string \<Rightarrow> string list \<Rightarrow> string option" where
  "tag_at n ts = map_of (zip (map string_of_nat [0..<length ts]) ts) n"

definition sort_images :: "string \<Rightarrow> bool \<Rightarrow> image list \<Rightarrow> js_error + image list" where
  "sort_images sortBy descending xs =
     (if sort_key_rejected sortBy then Inl (MongoServerError ''Invalid sort key'')
      else Inr
        (if sortBy = ''createdAt'' then sort_by_key i_createdAt descending xs
         else if sortBy = ''updatedAt'' then sort_by_key i_updatedAt descending xs
         else if sortBy = ''viewCount'' then sort_by_key i_viewCount descending xs
         else if sortBy = ''title'' then sort_by_key i_title descending xs
         else if sortBy = ''_id'' then sort_by_key i_id descending xs
         else if sortBy = ''description'' then sort_by_key i_description descending xs
         else if sortBy = ''category'' then sort_by_key i_category descending xs
         else if sortBy = ''cloudinaryId'' then sort_by_key i_cloudinaryId descending xs
         else if sortBy = ''imageUrl'' then sort_by_key i_imageUrl descending xs
         else if sortBy = ''thumbnailUrl'' then sort_by_key i_thumbnailUrl descending xs
         else if sortBy = ''originalFileName'' then sort_by_key i_originalFileName descending xs
         else if sortBy = ''fileSize'' then sort_by_key i_fileSize descending xs
         else if sortBy = ''mimeType'' then sort_by_key i_mimeType descending xs
         else if sortBy = ''dimensions'' then sort_by_key (\<lambda>i. (i_width i, i_height i)) descending xs
         else if sortBy = ''dimensions.width'' then sort_by_key i_width descending xs
         else if sortBy = ''dimensions.height'' then sort_by_key i_height descending xs
         else if sortBy = ''tags''
         then sort_by_key (\<lambda>i. if descending then greatest_tag (i_tags i) else least_tag (i_tags i))
                descending xs
         else if take 5 sortBy = ''tags.''
         then sort_by_key (\<lambda>i. tag_at (drop 5 sortBy) (i_tags i)) descending xs
         else if sortBy = ''isActive'' then sort_by_key i_isActive descending xs
         else if sortBy = ''isFeatured'' then sort_by_key i_isFeatured descending xs
         else if sortBy = ''$natural'' then (if descending then rev xs else xs)
         else xs))"

text \<open>\<open>.limit(n)\<close>: 0 is no limit, and the driver sends a negative limit as its absolute value.\<close>

definition mongo_limit :: "int \<Rightarrow> 'a list \<Rightarrow> 'a list" where
  "mongo_limit n xs = (if n = 0 then xs else take (nat \<bar>n\<bar>) xs)"

text \<open>The cast of a query value to a boolean path.\<close>

definition castBoolean :: "string \<Rightarrow> bool option" where
  "castBoolean s =
     (if s \<in> {''true'', ''1'', ''yes''} then Some True
      else if s \<in> {''false'', ''0'', ''no''} then Some False
      else None)"

text \<open>
  A value given where an ObjectId is expected, the empty string apart (a query treats it
  as no value): the form of an id, or something that is refused, by the cast in a query
  and by \<open>validateObjectId\<close> in the parameter of a route.
\<close>

datatype id_param = ObjectIdString objectId | NotAnObjectId

text \<open>
  The numbers of the pagination block: a quotient by zero is \<open>Infinity\<close> or \<open>NaN\<close>. The
  difference, the product and the quotient of the block are exact here; the language
  rounds them only from \<open>2 ^ 53\<close> on, where a page is empty either way.
\<close>

datatype js_number = Num int | Infinity | NaN

definition ceil_div :: "nat \<Rightarrow> int \<Rightarrow> js_number" where
  "ceil_div n limit =
     (if limit = 0 then (if n = 0 then NaN else Infinity)
      else Num (- ((- int n) div limit)))"

fun js_less :: "int \<Rightarrow> js_number \<Rightarrow> bool" where
  "js_less a (Num b) = (a < b)"
| "js_less a Infinity = True"
| "js_less a NaN = False"

record image_options =
  o_page :: "int option"
  o_limit :: "int option"
  o_sortBy :: "string option"
  o_sortOrder :: "string option"
  o_category :: "id_param option"
  o_featured :: "string option"
  o_search :: "string option"

record pagination =
  p_page :: int
  p_limit :: int
  p_total :: nat
  p_totalPages :: js_number
  p_hasNext :: bool
  p_hasPrev :: bool

text \<open>
  The query object of \<open>getAllImages\<close>: \<open>isActive: true\<close>, then the category, the featured
  flag and the search when they are given (an empty search string is falsy).
\<close>

definition search_matches :: "(string \<Rightarrow> bool) \<Rightarrow> image \<Rightarrow> bool" where
  "search_matches m i =
     (m (i_title i) \<or> (case i_description i of Some d \<Rightarrow> m d | None \<Rightarrow> False) \<or>
      list_ex m (i_tags i))"

definition image_query :: "regexp_engine \<Rightarrow> image_options \<Rightarrow> js_error + (image \<Rightarrow> bool)" where
  "image_query rx options =
     (case (case o_search options of
              None \<Rightarrow> Inr (\<lambda>i. True)
            | Some s \<Rightarrow>
                if s = [] then Inr (\<lambda>i. True)
                else (case rx s of
                        None \<Rightarrow> Inl (SyntaxError ''Invalid regular expression'')
                      | Some m \<Rightarrow> Inr (search_matches m))) of
        Inl e \<Rightarrow> Inl e
      | Inr by_search \<Rightarrow>
          (case (case o_category options of
                   None \<Rightarrow> Inr (\<lambda>i. True)
                 | Some NotAnObjectId \<Rightarrow> Inl (CastError ''category'')
                 | Some (ObjectIdString c) \<Rightarrow> Inr (\<lambda>i. i_category i = c)) of
             Inl e \<Rightarrow> Inl e
           | Inr by_category \<Rightarrow>
               (case (case o_featured options of
                        None \<Rightarrow> Inr (\<lambda>i. True)
                      | Some s \<Rightarrow>
                          (case castBoolean s of
                             None \<Rightarrow> Inl (CastError ''isFeatured'')
                           | Some b \<Rightarrow> Inr (\<lambda>i. i_isFeatured i = b))) of
                  Inl e \<Rightarrow> Inl e
                | Inr by_featured \<Rightarrow>
                    Inr (\<lambda>i. i_isActive i \<and> by_category i \<and> by_featured i \<and> by_search i))))"

definition getAllImages ::
  "regexp_engine \<Rightarrow> state \<Rightarrow> image_options \<Rightarrow>
     js_error + (image \<times> category_fields option) list \<times> pagination" where
  "getAllImages rx st options =
     (let page = (case o_page options of Some p \<Rightarrow> p | None \<Rightarrow> 1);
          limit = (case o_limit options of Some l \<Rightarrow> l | None \<Rightarrow> 20);
          sortBy = (case o_sortBy options of Some s \<Rightarrow> s | None \<Rightarrow> ''createdAt'');
          sortOrder = (case o_sortOrder options of Some s \<Rightarrow> s | None \<Rightarrow> ''desc'')
      in case image_query rx options of
           Inl e \<Rightarrow> Inl e
         | Inr query \<Rightarrow>
             (let skip = (page - 1) * limit
              in if skip < 0 then Inl (MongoServerError ''Skip value must be non-negative'')
                 else
                   (case sort_images sortBy (sortOrder = ''desc'') (filter query (images st)) of
                      Inl e \<Rightarrow> Inl e
                    | Inr ordered \<Rightarrow>
                        (let found = mongo_limit limit (drop (nat skip) ordered);
                             totalCount = length (filter query (images st));
                             totalPages = ceil_div totalCount limit
                         in Inr (map (\<lambda>i. (i, populate_category st False (i_category i))) found,
                                 \<lparr>p_page = page, p_limit = limit, p_total = totalCount,
                                  p_totalPages = totalPages,
                                  p_hasNext = js_less page totalPages,
                                  p_hasPrev = (1 < page)\<rparr>)))))"

definition searchImages ::
  "regexp_engine \<Rightarrow> state \<Rightarrow> string \<Rightarrow> image_options \<Rightarrow>
     js_error + (image \<times> category_fields option) list \<times> pagination" where
  "searchImages rx st searchTerm options =
     getAllImages rx st (options\<lparr>o_search := Some searchTerm\<rparr>)"



text \<open>
  \<open>findByCategoryName\<close>: the query finds the active images; \<open>populate\<close> with \<open>match\<close> then
  fills the \<open>category\<close> of each with the category document when it matches, and with
  \<open>null\<close> otherwise. Mongoose's \<open>populate\<close> never removes a parent document from the
  result. The limit is applied when it is truthy.
\<close>

definition findByCategoryName ::
  "regexp_engine \<Rightarrow> state \<Rightarrow> string \<Rightarrow> int option \<Rightarrow> js_error + (image \<times> category option) list" where
  "findByCategoryName rx st categoryName limit =
     (case rx categoryName of
        None \<Rightarrow> Inl (SyntaxError ''Invalid regular expression'')
      | Some m \<Rightarrow>
          (let newest_first = sort_by_key i_createdAt True (filter i_isActive (images st));
               found = (case limit of
                          None \<Rightarrow> newest_first
                        | Some l \<Rightarrow> if l = 0 then newest_first else mongo_limit l newest_first)
           in Inr (map (\<lambda>i. (i, case findCategoryById st (i_category i) of
                                   Some c \<Rightarrow> if m (c_name c) \<and> c_isActive c then Some c else None
                                 | None \<Rightarrow> None))
                     found)))"

definition getImagesByCategory ::
  "regexp_engine \<Rightarrow> state \<Rightarrow> string \<Rightarrow> int option \<Rightarrow> js_error + (image \<times> category option) list" where
  "getImagesByCategory rx st categoryName limit = findByCategoryName rx st categoryName limit"



text \<open>\<open>searchCategories\<close> and \<open>getCategoryByName\<close> of the category service.\<close>

definition searchCategories :: "regexp_engine \<Rightarrow> state \<Rightarrow> string \<Rightarrow> js_error + category list" where
  "searchCategories rx st searchTerm =
     (case rx searchTerm of
        None \<Rightarrow> Inl (MongoServerError ''Regular expression is invalid'')
      | Some m \<Rightarrow>
          Inr (sort_key c_name
                 (filter (\<lambda>c. c_isActive c \<and>
                               (m (c_name c) \<or>
                                (case c_description c of Some d \<Rightarrow> m d | None \<Rightarrow> False)))
                    (categories st))))"

definition getCategoryByName :: "regexp_engine \<Rightarrow> state \<Rightarrow> string \<Rightarrow> js_error + category" where
  "getCategoryByName rx st categoryName =
     (case rx categoryName of
        None \<Rightarrow> Inl (SyntaxError ''Invalid regular expression'')
      | Some m \<Rightarrow>
          (case find (\<lambda>c. m (c_name c) \<and> c_isActive c) (categories st) of
             None \<Rightarrow> Inl (Error ''Category not found'')
           | Some category \<Rightarrow> Inr category))"

section \<open>The route GET /images (controllers/ImageController.js)\<close>

text \<open>
  \<open>parseInt\<close> of a query string with no radix: leading white space, a sign, the prefix
  \<open>0x\<close> for hexadecimal, then the longest run of digits; \<open>None\<close> is \<open>NaN\<close>. The result is a
  double: the integer the digits write, rounded. (Digits that write \<open>2 ^ 1024\<close> or more give
  \<open>Infinity\<close> in the language, which is not modelled.)
\<close>

definition digit_value :: "nat \<Rightarrow> char \<Rightarrow> nat option" where
  "digit_value radix c =
     (case map_of (zip ''0123456789abcdef'' [0, 1, 2, 3, 4, 5, 6, 7, 8, 9, 10, 11, 12, 13, 14, 15])
             (toLowerChar c) of
        Some d \<Rightarrow> if d < radix then Some d else None
      | None \<Rightarrow> None)"

fun parse_digits :: "nat \<Rightarrow> string \<Rightarrow> nat option \<Rightarrow> nat option" where
  "parse_digits radix [] acc = acc"
| "parse_digits radix (c # cs) acc =
     (case digit_value radix c of
        None \<Rightarrow> acc
      | Some d \<Rightarrow>
          parse_digits radix cs (Some ((case acc of None \<Rightarrow> 0 | Some a \<Rightarrow> a) * radix + d)))"

definition parseInt :: "string \<Rightarrow> int option" where
  "parseInt s =
     (let t = dropWhile is_white s;
          negative = (case t of c # r \<Rightarrow> c = CHR ''-'' | [] \<Rightarrow> False);
          u = (case t of c # r \<Rightarrow> if c = CHR ''-'' \<or> c = CHR ''+'' then r else t | [] \<Rightarrow> []);
          hex = (case u of a # b # r \<Rightarrow> a = CHR ''0'' \<and> (b = CHR ''x'' \<or> b = CHR ''X'') | _ \<Rightarrow> False);
          digits = (if hex then parse_digits 16 (drop 2 u) None else parse_digits 10 u None)
      in map_option (\<lambda>n. to_double (if negative then - int n else int n)) digits)"

text \<open>\<open>parseInt(x) || d\<close>: \<open>NaN\<close> and 0 are falsy.\<close>

definition parseInt_or :: "string option \<Rightarrow> int \<Rightarrow> int" where
  "parseInt_or x d =
     (case x of
        None \<Rightarrow> d
      | Some s \<Rightarrow> (case parseInt s of None \<Rightarrow> d | Some n \<Rightarrow> if n = 0 then d else n))"

definition string_or :: "string option \<Rightarrow> string \<Rightarrow> string" where
  "string_or x d = (case x of None \<Rightarrow> d | Some s \<Rightarrow> if s = [] then d else s)"

record images_query =
  q_page :: "string option"
  q_limit :: "string option"
  q_sortBy :: "string option"
  q_sortOrder :: "string option"
  q_category :: "id_param option"
  q_featured :: "string option"
  q_search :: "string option"

text \<open>
  The route is \<open>router.get('/', ImageController.getAllImages)\<close>: no validation middleware
  stands before the controller, so the \<open>pagination\<close> schema of middleware/validation.js is
  not applied to the request.
\<close>

definition GET_images ::
  "regexp_engine \<Rightarrow> bool \<Rightarrow> state \<Rightarrow> images_query \<Rightarrow>
     ((image \<times> category_fields option) list \<times> pagination) http_response" where
  "GET_images rx development st query =
     (let options = \<lparr>o_page = Some (parseInt_or (q_page query) 1),
                      o_limit = Some (parseInt_or (q_limit query) 20),
                      o_sortBy = Some (string_or (q_sortBy query) ''createdAt''),
                      o_sortOrder = Some (string_or (q_sortOrder query) ''desc''),
                      o_category = q_category query,
                      o_featured = q_featured query,
                      o_search = q_search query\<rparr>
      in case getAllImages rx st options of
           Inl e \<Rightarrow> errorHandler development e
         | Inr result \<Rightarrow>
             \<lparr>res_status = 200, res_success = True,
              res_message = ''Images retrieved successfully'', res_data = Some result\<rparr>)"

section \<open>The route GET /images/:id\<close>


section \<open>A fragment of the regular expressions\<close>

text \<open>
  The patterns made of letters, digits, spaces and dots, matched anywhere in the subject
  and without regard to case: a dot stands for any character but a line feed, every other
  character for itself. \<open>dot_regexp\<close> is the engine on this fragment and does not answer
  for a pattern outside it.
\<close>

fun matches_here :: "string \<Rightarrow> string \<Rightarrow> bool" where
  "matches_here [] s = True"
| "matches_here (p # ps) [] = False"
| "matches_here (p # ps) (c # cs) =
     ((if p = CHR ''.'' then c \<noteq> CHR 0x0A else toLowerChar p = toLowerChar c) \<and>
      matches_here ps cs)"

fun matches_anywhere :: "string \<Rightarrow> string \<Rightarrow> bool" where
  "matches_anywhere p [] = matches_here p []"
| "matches_anywhere p (c # cs) = (matches_here p (c # cs) \<or> matches_anywhere p cs)"

definition dot_regexp :: regexp_engine where
  "dot_regexp p =
     (if list_all (\<lambda>c. is_lower_alnum (toLowerChar c) \<or> c = CHR ''.'' \<or> c = CHR '' '') p
      then Some (matches_anywhere p) else None)"

text \<open>The literal reading of a search term: the subject contains it, without regard to case.\<close>

fun starts_with :: "string \<Rightarrow> string \<Rightarrow> bool" where
  "starts_with [] s = True"
| "starts_with (p # ps) [] = False"
| "starts_with (p # ps) (c # cs) = (toLowerChar p = toLowerChar c \<and> starts_with ps cs)"

fun contains_literally :: "string \<Rightarrow> string \<Rightarrow> bool" where
  "contains_literally p [] = starts_with p []"
| "contains_literally p (c # cs) = (starts_with p (c # cs) \<or> contains_literally p cs)"

section \<open>Measures and example states\<close>

text \<open>
  The count \<open>updateImageCount\<close> of the category model takes:
  \<open>Image.countDocuments({category: this._id, isActive: true})\<close>.
\<close>

definition active_image_count :: "state \<Rightarrow> objectId \<Rightarrow> nat" where
  "active_image_count st cid =
     length (filter (\<lambda>i. i_category i = cid \<and> i_isActive i) (images st))"

text \<open>The delete requests in the log of the asset host.\<close>

fun is_Destroy :: "cloudinary_call \<Rightarrow> bool" where
  "is_Destroy (Destroy x) = True"
| "is_Destroy (Upload x) = False"

definition destroy_attempts :: "state \<Rightarrow> nat" where
  "destroy_attempts st = length (filter is_Destroy (cloudinary_calls st))"

definition empty_state :: state where
  "empty_state = \<lparr>categories = [], images = [], cloudinary_calls = []\<rparr>"

definition example_category :: "objectId \<Rightarrow> string \<Rightarrow> string \<Rightarrow> int \<Rightarrow> category" where
  "example_category cid name slug n =
     \<lparr>c_id = cid, c_name = name, c_description = None, c_slug = slug, c_isActive = True,
      c_imageCount = n, c_createdAt = 1, c_updatedAt = 1\<rparr>"

definition example_image :: "objectId \<Rightarrow> objectId \<Rightarrow> string \<Rightarrow> nat \<Rightarrow> image" where
  "example_image iid cid title created =
     \<lparr>i_id = iid, i_title = title, i_description = None, i_category = cid,
      i_cloudinaryId = ''marriage-hall/asset/'' @ string_of_nat iid,
      i_imageUrl = ''https://res.example/'' @ string_of_nat iid,
      i_thumbnailUrl = ''https://res.example/t/'' @ string_of_nat iid,
      i_originalFileName = ''photo.jpg'', i_fileSize = 1000, i_mimeType = ''jpg'',
      i_width = 800, i_height = 600, i_tags = [], i_isActive = True, i_isFeatured = False,
      i_viewCount = 0, i_createdAt = created, i_updatedAt = created\<rparr>"

text \<open>A category that owns two images, none of whose assets has been deleted.\<close>

definition hall_with_two_images :: state where
  "hall_with_two_images =
     \<lparr>categories = [example_category 1 ''hall'' ''hall'' 2],
      images = [example_image 10 1 ''Stage'' 5, example_image 11 1 ''Garden gate'' 6],
      cloudinary_calls = []\<rparr>"

text \<open>
  The scenario of the specification: the category "Outdoor Venues" is created, the image
  "Sunset Shot" is uploaded to it, and the image is deleted. The states after each step:
\<close>

definition outdoor :: category where
  "outdoor = \<lparr>c_id = 1, c_name = ''Outdoor Venues'', c_description = None,
     c_slug = ''outdoor-venues'', c_isActive = True, c_imageCount = 0,
     c_createdAt = 100, c_updatedAt = 100\<rparr>"

definition sunset_upload :: cloudinaryResult where
  "sunset_upload = \<lparr>r_public_id = ''marriage-hall/outdoor venues/200'',
     r_secure_url = ''https://res.example/sunset.jpg'', r_bytes = 2048, r_format = ''jpg'',
     r_width = 800, r_height = 600\<rparr>"

definition sunset_data :: imageData where
  "sunset_data = \<lparr>d_title = Some ''Sunset Shot'', d_description = None, d_tags = [],
     d_isFeatured = False, d_originalFileName = ''sunset.jpg''\<rparr>"

definition sunset :: image where
  "sunset = \<lparr>i_id = 10, i_title = ''Sunset Shot'', i_description = None, i_category = 1,
     i_cloudinaryId = ''marriage-hall/outdoor venues/200'',
     i_imageUrl = ''https://res.example/sunset.jpg'',
     i_thumbnailUrl = ''thumb:marriage-hall/outdoor venues/200'',
     i_originalFileName = ''sunset.jpg'', i_fileSize = 2048, i_mimeType = ''jpg'',
     i_width = 800, i_height = 600, i_tags = [], i_isActive = True, i_isFeatured = False,
     i_viewCount = 0, i_createdAt = 200, i_updatedAt = 200\<rparr>"

definition outdoor_created :: state where
  "outdoor_created = \<lparr>categories = [outdoor], images = [], cloudinary_calls = []\<rparr>"

definition outdoor_uploaded :: state where
  "outdoor_uploaded =
     \<lparr>categories = [outdoor\<lparr>c_imageCount := 1, c_updatedAt := 200\<rparr>], images = [sunset],
      cloudinary_calls = [Upload ''marriage-hall/outdoor venues/200'']\<rparr>"

definition outdoor_deleted :: state where
  "outdoor_deleted =
     \<lparr>categories = [outdoor\<lparr>c_imageCount := 1, c_updatedAt := 200\<rparr>], images = [],
      cloudinary_calls = [Upload ''marriage-hall/outdoor venues/200'',
                          Destroy ''marriage-hall/outdoor venues/200'']\<rparr>"

text \<open>Two categories with one active image each.\<close>

definition hall_and_garden :: state where
  "hall_and_garden =
     \<lparr>categories = [example_category 1 ''hall'' ''hall'' 1,
                    example_category 2 ''garden'' ''garden'' 1],
      images = [example_image 10 1 ''Stage'' 5, example_image 11 2 ''Roses'' 6],
      cloudinary_calls = []\<rparr>"

text \<open>A category with 101 active images, and the request \<open>GET /images?limit=500\<close>.\<close>

definition many_images :: state where
  "many_images =
     \<lparr>categories = [example_category 1 ''hall'' ''hall'' 101],
      images = map (\<lambda>n. example_image n 1 ''Photo'' n) [0..<101],
      cloudinary_calls = []\<rparr>"

definition limit_500 :: images_query where
  "limit_500 = \<lparr>q_page = None, q_limit = Some ''500'', q_sortBy = None, q_sortOrder = None,
     q_category = None, q_featured = None, q_search = None\<rparr>"

definition no_parameters :: images_query where
  "no_parameters = \<lparr>q_page = None, q_limit = None, q_sortBy = None, q_sortOrder = None,
     q_category = None, q_featured = None, q_search = None\<rparr>"





text \<open>
  The operations of the two services that write, and the state each leaves. The URL
  builder of the asset host is a parameter of the step.
\<close>

datatype operation =
    CreateCategory nat objectId categoryData
  | UpdateCategory nat objectId categoryUpdate
  | DeleteCategory objectId
  | UploadImage nat objectId "js_error + cloudinaryResult" imageData objectId
  | GetImageById nat objectId
  | UpdateImage nat objectId imageUpdate
  | DeleteImage "js_error option" objectId

fun step :: "(string \<Rightarrow> string) \<Rightarrow> state \<Rightarrow> operation \<Rightarrow> state" where
  "step g st (CreateCategory now oid d) = snd (createCategory st now oid d)"
| "step g st (UpdateCategory now cid u) = snd (updateCategory st now cid u)"
| "step g st (DeleteCategory cid) = snd (deleteCategory st cid)"
| "step g st (UploadImage now oid remote d cid) = snd (uploadImage g st now oid remote d cid)"
| "step g st (GetImageById now iid) = snd (getImageById st now iid)"
| "step g st (UpdateImage now iid u) = snd (updateImage st now iid u)"
| "step g st (DeleteImage remote iid) = snd (deleteImage st remote iid)"










text \<open>
  A store for the searches. Of the categories, "hall" matches the pattern \<open>h.ll\<close> by its
  name and "lawn", which comes first, by its description; "garden" does not match, and the
  name of "hill" matches but the category is inactive. Of the images, one matches by its
  title, one by its description, one by a tag and one not at all, and one that matches by
  its title is inactive.
\<close>

definition lawn :: category where
  "lawn = (example_category 3 ''lawn'' ''lawn'' 0)\<lparr>c_description := Some ''near the hill''\<rparr>"

definition closed_hill :: category where
  "closed_hill = (example_category 4 ''hill'' ''hill'' 0)\<lparr>c_isActive := False\<rparr>"

definition stage :: image where
  "stage = (example_image 13 1 ''Stage'' 8)\<lparr>i_description := Some ''Great hall''\<rparr>"

definition roses :: image where
  "roses = (example_image 14 2 ''Roses'' 9)\<lparr>i_tags := [''red'', ''hilltop'']\<rparr>"

definition fountain :: image where
  "fountain = (example_image 15 2 ''Fountain'' 10)\<lparr>i_description := Some ''Evening light'',
     i_tags := [''dusk'']\<rparr>"

definition hall_door :: image where
  "hall_door = (example_image 16 1 ''Hall door'' 11)\<lparr>i_isActive := False\<rparr>"

definition search_store :: state where
  "search_store =
     \<lparr>categories = [lawn, example_category 1 ''hall'' ''hall'' 2,
                    example_category 2 ''garden'' ''garden'' 2, closed_hill],
      images = [example_image 12 1 ''Hill view'' 7, stage, roses, fountain, hall_door],
      cloudinary_calls = []\<rparr>"

text \<open>The strings of the store that the pattern \<open>h.ll\<close> matches, and those it does not.\<close>

definition h_ll_matches :: "string list" where
  "h_ll_matches = [''hall'', ''hill'', ''near the hill'', ''Hill view'', ''Great hall'', ''hilltop'',
     ''Hall door'']"

definition h_ll_misses :: "string list" where
  "h_ll_misses = [''lawn'', ''garden'', ''Stage'', ''Roses'', ''Fountain'', ''Evening light'', ''red'',
     ''dusk'']"

definition no_options :: image_options where
  "no_options = \<lparr>o_page = None, o_limit = None, o_sortBy = None, o_sortOrder = None,
     o_category = None, o_featured = None, o_search = None\<rparr>"


section \<open>The router of routes/index.js\<close>

text \<open>
  The repository has a second path to categories and images: the router of
  \<open>routes/index.js\<close>, on the models of \<open>model/\<close> (a category has a name, an image a
  category and the URL of its asset). Its state also holds what is written to the console.
\<close>

record router_category =
  lc_id :: objectId
  lc_name :: string

record router_image =
  li_id :: objectId
  li_category :: objectId
  li_image :: string
  li_createdAt :: nat

datatype router_call = RouterDestroy string | RouterDeleteFolder string

record router_state =
  l_categories :: "router_category list"
  l_images :: "router_image list"
  l_calls :: "router_call list"
  l_console :: "string list"

text \<open>
  The public id of an asset, from its URL: the part after the last slash, up to its first
  dot, under the folder of the category.
\<close>

definition last_segment :: "string \<Rightarrow> string" where
  "last_segment url = rev (takeWhile (\<lambda>c. c \<noteq> CHR ''/'') (rev url))"

definition before_dot :: "string \<Rightarrow> string" where
  "before_dot s = takeWhile (\<lambda>c. c \<noteq> CHR ''.'') s"

definition fullPublicId :: "router_category \<Rightarrow> router_image \<Rightarrow> string" where
  "fullPublicId category img =
     ''myapp/'' @ lc_name category @ ''/'' @ before_dot (last_segment (li_image img))"

text \<open>
  The asset of each image is destroyed inside \<open>try\<close>/\<open>catch\<close>: a rejection (\<open>rejects\<close> says
  which public ids the asset host rejects) is written to the console and nothing else.
  The requests run concurrently; the log lists them in the order of the images.
\<close>

fun destroy_all ::
  "(string \<Rightarrow> bool) \<Rightarrow> router_category \<Rightarrow> router_image list \<Rightarrow> router_state \<Rightarrow> router_state" where
  "destroy_all rejects category [] st = st"
| "destroy_all rejects category (img # imgs) st =
     (let st1 = st\<lparr>l_calls := l_calls st @ [RouterDestroy (fullPublicId category img)]\<rparr>;
          st2 = (if rejects (fullPublicId category img)
                 then st1\<lparr>l_console := l_console st1 @
                                [''Failed to delete image from Cloudinary'']\<rparr>
                 else st1)
      in destroy_all rejects category imgs st2)"

text \<open>
  \<open>router.delete('/categories/:categoryId')\<close>: status 404 when the category is missing;
  otherwise the assets are destroyed, the image documents and the category are deleted,
  the folder of the category is deleted at the asset host (a rejection goes to the
  console), and the answer is status 200 with the name and the number of images.
\<close>

definition router_delete_category ::
  "(string \<Rightarrow> bool) \<Rightarrow> bool \<Rightarrow> router_state \<Rightarrow> objectId \<Rightarrow>
     (nat \<times> (string \<times> nat) option) \<times> router_state" where
  "router_delete_category rejects folder_rejected st categoryId =
     (case find (\<lambda>c. lc_id c = categoryId) (l_categories st) of
        None \<Rightarrow> ((404, None), st)
      | Some category \<Rightarrow>
          (let imgs = filter (\<lambda>i. li_category i = categoryId) (l_images st);
               st1 = destroy_all rejects category imgs st;
               st2 = st1\<lparr>l_images := filter (\<lambda>i. li_category i \<noteq> categoryId) (l_images st1)\<rparr>;
               st3 = st2\<lparr>l_categories :=
                          delete_first (\<lambda>c. lc_id c = categoryId) (l_categories st2)\<rparr>;
               st4 = st3\<lparr>l_calls := l_calls st3 @
                          [RouterDeleteFolder (''myapp/'' @ lc_name category)]\<rparr>;
               st5 = (if folder_rejected
                      then st4\<lparr>l_console := l_console st4 @
                                     [''Failed to delete Cloudinary folder'']\<rparr>
                      else st4)
           in ((200, Some (lc_name category, length imgs)), st5)))"

fun is_RouterDestroy :: "router_call \<Rightarrow> bool" where
  "is_RouterDestroy (RouterDestroy x) = True"
| "is_RouterDestroy (RouterDeleteFolder x) = False"

section \<open>The invariant of the store, and sequences of operations\<close>

text \<open>
  What the unique index on \<open>_id\<close> keeps true of the image collection, and the state after a
  sequence of operations.
\<close>

definition store_ok :: "state \<Rightarrow> bool" where
  "store_ok st = distinct (map i_id (images st))"

fun steps :: "(string \<Rightarrow> string) \<Rightarrow> state \<Rightarrow> operation list \<Rightarrow> state" where
  "steps g st [] = st"
| "steps g st (op # ops) = steps g (step g st op) ops"

section \<open>The slug as the specification words it\<close>

text \<open>
  The transform of a name, following the words of the specification: the name in lower
  case, every maximal run of non-alphanumeric characters replaced by a single hyphen,
  leading and trailing hyphens removed. It is compared with \<open>slug_of_name\<close>, the
  expression of the source, below.
\<close>

definition is_alphanumeric :: "char \<Rightarrow> bool" where
  "is_alphanumeric c =
     (c \<in> set ''ABCDEFGHIJKLMNOPQRSTUVWXYZ'' \<or>
      c \<in> set ''abcdefghijklmnopqrstuvwxyz0123456789'')"

function hyphenate_runs :: "string \<Rightarrow> string" where
  "hyphenate_runs [] = []"
| "hyphenate_runs (c # cs) =
     (if is_alphanumeric c then c # hyphenate_runs cs
      else CHR ''-'' # hyphenate_runs (dropWhile (\<lambda>d. \<not> is_alphanumeric d) cs))"
  by pat_completeness auto
termination
  by (relation "measure length") (auto simp: less_Suc_eq_le length_dropWhile_le)

definition strip_hyphens :: "string \<Rightarrow> string" where
  "strip_hyphens s =
     rev (dropWhile (\<lambda>c. c = CHR ''-'') (rev (dropWhile (\<lambda>c. c = CHR ''-'') s)))"

definition spec_slug :: "string \<Rightarrow> string" where
  "spec_slug name = strip_hyphens (hyphenate_runs (toLowerCase name))"

text \<open>No two hyphens stand side by side: what the first replacement leaves true of its output.\<close>

fun no_double_hyphen :: "string \<Rightarrow> bool" where
  "no_double_hyphen (a # b # r) = (\<not> (a = CHR ''-'' \<and> b = CHR ''-'') \<and> no_double_hyphen (b # r))"
| "no_double_hyphen [a] = True"
| "no_double_hyphen [] = True"

section \<open>Properties of the services\<close>

subsection \<open>Doubles\<close>

text \<open>
  Rounding leaves a double as it is, an integer below \<open>2 ^ 53\<close> in absolute value is a
  double, and adding 1 to a double never gives less: below \<open>2 ^ 53\<close> the sum is exact, at
  \<open>2 ^ 53\<close> it is \<open>2 ^ 53\<close> again.
\<close>

lemma bit_length_0 [simp]: "bit_length 0 = 0"
  by (simp add: bit_length.simps)

lemma bit_length_pos: "0 < n \<Longrightarrow> bit_length n = Suc (bit_length (n div 2))"
  by (simp add: bit_length.simps)

lemma bit_length_less: "n < 2 ^ k \<Longrightarrow> bit_length n \<le> k"
proof (induction n arbitrary: k rule: bit_length.induct)
  case (1 n)
  show ?case
  proof (cases "n = 0")
    case True
    then show ?thesis by simp
  next
    case False
    with "1.prems" obtain j where k: "k = Suc j" by (cases k) auto
    with "1.prems" have "n div 2 < 2 ^ j" by auto
    with "1.IH" False have "bit_length (n div 2) \<le> j" by blast
    with False k show ?thesis by (simp add: bit_length_pos)
  qed
qed

lemma bit_length_greater: "2 ^ k \<le> n \<Longrightarrow> k < bit_length n"
proof (induction n arbitrary: k rule: bit_length.induct)
  case (1 n)
  have "(0::nat) < 2 ^ k" by simp
  with "1.prems" have pos: "0 < n" by linarith
  show ?case
  proof (cases k)
    case 0
    with pos show ?thesis by (simp add: bit_length_pos)
  next
    case (Suc j)
    with "1.prems" have "2 ^ j \<le> n div 2" by auto
    with "1.IH" pos have "j < bit_length (n div 2)" by auto
    with pos Suc show ?thesis by (simp add: bit_length_pos)
  qed
qed



lemma bit_length_lower: "0 < n \<Longrightarrow> 2 ^ (bit_length n - 1) \<le> n"
proof (rule ccontr)
  assume pos: "0 < n" and "\<not> 2 ^ (bit_length n - 1) \<le> n"
  then have "n < 2 ^ (bit_length n - 1)" by simp
  from bit_length_less [OF this] have "bit_length n \<le> bit_length n - 1" .
  moreover from pos have "0 < bit_length n" by (simp add: bit_length_pos)
  ultimately show False by simp
qed

lemma round_half_even_dvd: "2 ^ k dvd n \<Longrightarrow> round_half_even n k * 2 ^ k = n"
  by (auto simp: round_half_even_def Let_def)

lemma to_double_nat_small: "n < 2 ^ 53 \<Longrightarrow> to_double_nat n = n"
proof -
  assume "n < 2 ^ 53"
  then have "bit_length n \<le> 53" by (rule bit_length_less)
  then have "bit_length n - 53 = 0" by simp
  then show ?thesis by (simp add: to_double_nat_def round_half_even_def)
qed

lemma to_double_nat_fix: "2 ^ (bit_length n - 53) dvd n \<Longrightarrow> to_double_nat n = n"
  by (simp add: to_double_nat_def round_half_even_dvd)

lemma to_double_small: "\<bar>x\<bar> < 2 ^ 53 \<Longrightarrow> to_double x = x"
proof -
  assume a: "\<bar>x\<bar> < 2 ^ 53"
  then have "nat \<bar>x\<bar> < 2 ^ 53" by (simp add: nat_less_iff)
  then have "to_double_nat (nat \<bar>x\<bar>) = nat \<bar>x\<bar>" by (rule to_double_nat_small)
  then show ?thesis by (auto simp: to_double_def abs_if split: if_splits)
qed

lemma is_double_fix: "is_double x \<Longrightarrow> to_double x = x"
proof -
  assume d: "is_double x"
  then have "(2::int) ^ (bit_length (nat \<bar>x\<bar>) - 53) dvd \<bar>x\<bar>" by (simp add: is_double_def)
  then have "int (2 ^ (bit_length (nat \<bar>x\<bar>) - 53)) dvd int (nat \<bar>x\<bar>)" by simp
  then have "2 ^ (bit_length (nat \<bar>x\<bar>) - 53) dvd nat \<bar>x\<bar>" by (simp only: int_dvd_int_iff)
  then have "to_double_nat (nat \<bar>x\<bar>) = nat \<bar>x\<bar>" by (rule to_double_nat_fix)
  then show ?thesis by (auto simp: to_double_def abs_if split: if_splits)
qed

lemma bit_length_eq: "2 ^ k \<le> n \<Longrightarrow> n < 2 ^ Suc k \<Longrightarrow> bit_length n = Suc k"
  using bit_length_greater [of k n] bit_length_less [of n "Suc k"] by simp



lemma to_double_2_53_3: "to_double 9007199254740995 = 9007199254740996"
proof -
  have "bit_length 9007199254740995 = Suc 53" by (rule bit_length_eq) simp_all
  then show ?thesis by (simp add: to_double_def to_double_nat_def round_half_even_def)
qed














subsection \<open>The scenario, step by step\<close>



lemma uploadImage_sunset:
  "uploadImage (\<lambda>s. ''thumb:'' @ s) outdoor_created 200 10 (Inr sunset_upload) sunset_data 1
     = (Inr sunset, outdoor_uploaded)"
  by (simp add: uploadImage_def outdoor_created_def outdoor_uploaded_def outdoor_def sunset_def
      sunset_upload_def sunset_data_def findCategoryById_def Let_def Image_save_new_def
      imageSchema_validate_def validate_title_def validate_description_def validate_required_def
      validate_tags_def validate_viewCount_def validate_min_0_def imageSchema_pre_save_def
      inc_imageCount_def mongo_inc_def image_unique_violation_def trim_def is_white_def
      toLowerCase_def toLowerChar_def string_of_nat.simps)

lemma deleteImage_sunset:
  "deleteImage outdoor_uploaded None 10 =
     (Inr (''Sunset Shot'', ''marriage-hall/outdoor venues/200''), outdoor_deleted)"
  by (simp add: deleteImage_def outdoor_uploaded_def outdoor_deleted_def findImageById_def
      sunset_def Let_def)

subsection \<open>Deleting a category\<close>

lemma deleteCategory_calls:
  "cloudinary_calls (snd (deleteCategory st categoryId)) = cloudinary_calls st"
  by (simp add: deleteCategory_def Let_def split: option.splits)

lemma deleteCategory_images:
  "findCategoryById st categoryId = Some c \<Longrightarrow>
   deleteCategory st categoryId =
     (Inr (c_name c, length (filter (\<lambda>i. i_category i = categoryId) (images st))),
      st\<lparr>images := filter (\<lambda>i. i_category i \<noteq> categoryId) (images st),
         categories := delete_first (\<lambda>c. c_id c = categoryId) (categories st)\<rparr>)"
  by (simp add: deleteCategory_def Let_def)

lemma deleteCategory_destroy_attempts:
  "destroy_attempts (snd (deleteCategory st categoryId)) = destroy_attempts st"
  by (simp add: destroy_attempts_def deleteCategory_calls)

lemma deleteCategory_leaves_no_image:
  "findCategoryById st categoryId = Some c \<Longrightarrow>
   filter (\<lambda>i. i_category i = categoryId) (images (snd (deleteCategory st categoryId))) = []"
  by (simp add: deleteCategory_images filter_empty_conv)

text \<open>
  The router of \<open>routes/index.js\<close> does what the claim says: one destroy request per image
  of the category, whatever the asset host answers, then no image of the category and no
  category, and the name with the number of images in the answer.
\<close>

lemma destroy_all_images: "l_images (destroy_all rejects c imgs st) = l_images st"
  by (induction imgs arbitrary: st) (auto simp: Let_def)

lemma destroy_all_categories: "l_categories (destroy_all rejects c imgs st) = l_categories st"
  by (induction imgs arbitrary: st) (auto simp: Let_def)

lemma destroy_all_calls:
  "l_calls (destroy_all rejects c imgs st) =
   l_calls st @ map (\<lambda>i. RouterDestroy (fullPublicId c i)) imgs"
  by (induction imgs arbitrary: st) (auto simp: Let_def)

lemma router_delete_category_cascade:
  assumes "find (\<lambda>c. lc_id c = categoryId) (l_categories st) = Some category"
  shows "fst (router_delete_category rejects folder_rejected st categoryId) =
           (200, Some (lc_name category,
                       length (filter (\<lambda>i. li_category i = categoryId) (l_images st)))) \<and>
         length (filter is_RouterDestroy
                   (l_calls (snd (router_delete_category rejects folder_rejected st categoryId)))) =
           length (filter is_RouterDestroy (l_calls st)) +
           length (filter (\<lambda>i. li_category i = categoryId) (l_images st)) \<and>
         filter (\<lambda>i. li_category i = categoryId)
           (l_images (snd (router_delete_category rejects folder_rejected st categoryId))) = [] \<and>
         l_categories (snd (router_delete_category rejects folder_rejected st categoryId)) =
           delete_first (\<lambda>c. lc_id c = categoryId) (l_categories st)"
proof -
  have "filter is_RouterDestroy (map (\<lambda>i. RouterDestroy (fullPublicId category i)) xs) =
        map (\<lambda>i. RouterDestroy (fullPublicId category i)) xs" for xs :: "router_image list"
    by (induction xs) auto
  then show ?thesis
    using assms
    by (simp add: router_delete_category_def Let_def destroy_all_images destroy_all_categories
        destroy_all_calls filter_empty_conv)
qed

text \<open>
  C1. The claim asks for one delete request to the asset host per owned image. On a
  category that owns two images, \<open>deleteCategory\<close> of the category service removes both
  image documents and the category and returns the name with the count 2, and the log of
  the asset host stays empty: no delete request is sent, where the claim says two.
\<close>

theorem deleteCategory_two_images_no_destroy:
  "deleteCategory hall_with_two_images 1 =
     (Inr (''hall'', 2), \<lparr>categories = [], images = [], cloudinary_calls = []\<rparr>) \<and>
   destroy_attempts (snd (deleteCategory hall_with_two_images 1)) = 0"
  by (simp add: deleteCategory_def hall_with_two_images_def findCategoryById_def
      example_category_def example_image_def destroy_attempts_def Let_def)

subsection \<open>An upload that fails writes no image\<close>

lemma uploadImage_no_category:
  "findCategoryById st cid = None \<Longrightarrow>
   uploadImage g st now oid remote d cid = (Inl (Error ''Category not found''), st)"
  by (simp add: uploadImage_def)

lemma images_inc_imageCount: "images (inc_imageCount now cid k st) = images st"
  by (simp add: inc_imageCount_def)

lemma images_pre_save: "images (imageSchema_pre_save now a b img st) = images st"
  by (simp add: imageSchema_pre_save_def images_inc_imageCount)

lemma uploadImage_remote_failed:
  "remote = Inl e \<Longrightarrow>
   (\<exists>e'. fst (uploadImage g st now oid remote d cid) = Inl e') \<and>
   images (snd (uploadImage g st now oid remote d cid)) = images st"
  by (auto simp: uploadImage_def Let_def split: option.splits)

lemma uploadImage_Inr:
  assumes "fst (uploadImage g st now oid remote d cid) = Inr img"
  shows "\<exists>c r. findCategoryById st cid = Some c \<and> remote = Inr r \<and>
           i_cloudinaryId img = r_public_id r \<and>
           images (snd (uploadImage g st now oid remote d cid)) = images st @ [img]"
proof (cases "findCategoryById st cid")
  case None
  with assms show ?thesis by (simp add: uploadImage_def)
next
  case (Some c)
  show ?thesis
  proof (cases remote)
    case (Inl e)
    with assms Some show ?thesis by (simp add: uploadImage_def Let_def)
  next
    case (Inr r)
    with assms Some show ?thesis
      by (auto simp: uploadImage_def Let_def Image_save_new_def images_pre_save
          split: option.splits)
  qed
qed

lemma uploadImage_images_cases:
  "images (snd (uploadImage g st now oid remote d cid)) = images st \<or>
   (\<exists>img. fst (uploadImage g st now oid remote d cid) = Inr img)"
  by (auto simp: uploadImage_def Let_def Image_save_new_def images_pre_save
      split: option.splits sum.splits)

text \<open>
  C4. When the category id resolves to no category, or the asset host rejects the upload,
  \<open>uploadImage\<close> fails and the image collection is as before. When \<open>uploadImage\<close> returns an
  image, the category exists, the asset host has answered the upload, the image carries
  the identifier of that answer, and it is the one document added to the collection. In
  every case the collection is unchanged unless an image is returned.
\<close>

theorem uploadImage_writes_only_after_upload:
  "((findCategoryById st cid = None \<or> (\<exists>e. remote = Inl e)) \<longrightarrow>
      (\<exists>e. fst (uploadImage g st now oid remote d cid) = Inl e) \<and>
      images (snd (uploadImage g st now oid remote d cid)) = images st) \<and>
   (\<forall>img. fst (uploadImage g st now oid remote d cid) = Inr img \<longrightarrow>
      (\<exists>c r. findCategoryById st cid = Some c \<and> remote = Inr r \<and>
         i_cloudinaryId img = r_public_id r \<and>
         images (snd (uploadImage g st now oid remote d cid)) = images st @ [img])) \<and>
   (images (snd (uploadImage g st now oid remote d cid)) = images st \<or>
      (\<exists>img. fst (uploadImage g st now oid remote d cid) = Inr img))"
proof (intro conjI impI allI)
  assume "findCategoryById st cid = None \<or> (\<exists>e. remote = Inl e)"
  then show "\<exists>e. fst (uploadImage g st now oid remote d cid) = Inl e"
    using uploadImage_no_category [of st cid g now oid remote d]
      uploadImage_remote_failed [of remote _ g st now oid d cid]
    by auto
next
  assume "findCategoryById st cid = None \<or> (\<exists>e. remote = Inl e)"
  then show "images (snd (uploadImage g st now oid remote d cid)) = images st"
    using uploadImage_no_category [of st cid g now oid remote d]
      uploadImage_remote_failed [of remote _ g st now oid d cid]
    by auto
next
  fix img assume "fst (uploadImage g st now oid remote d cid) = Inr img"
  then show "\<exists>c r. findCategoryById st cid = Some c \<and> remote = Inr r \<and>
         i_cloudinaryId img = r_public_id r \<and>
         images (snd (uploadImage g st now oid remote d cid)) = images st @ [img]"
    by (rule uploadImage_Inr)
next
  show "images (snd (uploadImage g st now oid remote d cid)) = images st \<or>
      (\<exists>img. fst (uploadImage g st now oid remote d cid) = Inr img)"
    by (rule uploadImage_images_cases)
qed

text \<open>
  The theorem at three inputs: an upload to a category that does not exist, an upload
  that the asset host rejects, and the upload of "Sunset Shot", which succeeds.
\<close>

theorem uploadImage_writes_only_after_upload_witness:
  "((\<exists>e. fst (uploadImage (\<lambda>s. ''thumb:'' @ s) empty_state 200 10 (Inr sunset_upload)
             sunset_data 1) = Inl e) \<and>
    images (snd (uploadImage (\<lambda>s. ''thumb:'' @ s) empty_state 200 10 (Inr sunset_upload)
             sunset_data 1)) = images empty_state) \<and>
   ((\<exists>e. fst (uploadImage (\<lambda>s. ''thumb:'' @ s) outdoor_created 200 10
             (Inl (Error ''Upload failed'')) sunset_data 1) = Inl e) \<and>
    images (snd (uploadImage (\<lambda>s. ''thumb:'' @ s) outdoor_created 200 10
             (Inl (Error ''Upload failed'')) sunset_data 1)) = images outdoor_created) \<and>
   (\<exists>c r. findCategoryById outdoor_created 1 = Some c \<and>
      (Inr sunset_upload :: js_error + cloudinaryResult) = Inr r \<and>
      i_cloudinaryId sunset = r_public_id r \<and>
      images (snd (uploadImage (\<lambda>s. ''thumb:'' @ s) outdoor_created 200 10 (Inr sunset_upload)
                sunset_data 1)) = images outdoor_created @ [sunset])"
proof -
  have none: "findCategoryById empty_state 1 = None \<or>
      (\<exists>e. (Inr sunset_upload :: js_error + cloudinaryResult) = Inl e)"
    by (simp add: findCategoryById_def empty_state_def)
  have failed: "findCategoryById outdoor_created 1 = None \<or>
      (\<exists>e. (Inl (Error ''Upload failed'') :: js_error + cloudinaryResult) = Inl e)"
    by simp
  have uploaded: "fst (uploadImage (\<lambda>s. ''thumb:'' @ s) outdoor_created 200 10 (Inr sunset_upload)
      sunset_data 1) = Inr sunset"
    using uploadImage_sunset by simp
  note t1 = uploadImage_writes_only_after_upload
    [where st = empty_state and cid = 1 and remote = "Inr sunset_upload"
       and g = "\<lambda>s. ''thumb:'' @ s" and now = 200 and oid = 10 and d = sunset_data]
  note t2 = uploadImage_writes_only_after_upload
    [where st = outdoor_created and cid = 1 and remote = "Inl (Error ''Upload failed'')"
       and g = "\<lambda>s. ''thumb:'' @ s" and now = 200 and oid = 10 and d = sunset_data]
  note t3 = uploadImage_writes_only_after_upload
    [where st = outdoor_created and cid = 1 and remote = "Inr sunset_upload"
       and g = "\<lambda>s. ''thumb:'' @ s" and now = 200 and oid = 10 and d = sunset_data]
  from t1 [THEN conjunct1, THEN mp, OF none]
  have a: "(\<exists>e. fst (uploadImage (\<lambda>s. ''thumb:'' @ s) empty_state 200 10 (Inr sunset_upload)
             sunset_data 1) = Inl e) \<and>
    images (snd (uploadImage (\<lambda>s. ''thumb:'' @ s) empty_state 200 10 (Inr sunset_upload)
             sunset_data 1)) = images empty_state" .
  from t2 [THEN conjunct1, THEN mp, OF failed]
  have b: "(\<exists>e. fst (uploadImage (\<lambda>s. ''thumb:'' @ s) outdoor_created 200 10
             (Inl (Error ''Upload failed'')) sunset_data 1) = Inl e) \<and>
    images (snd (uploadImage (\<lambda>s. ''thumb:'' @ s) outdoor_created 200 10
             (Inl (Error ''Upload failed'')) sunset_data 1)) = images outdoor_created" .
  from t3 [THEN conjunct2, THEN conjunct1, THEN spec, THEN mp, OF uploaded]
  have c: "\<exists>c r. findCategoryById outdoor_created 1 = Some c \<and>
      (Inr sunset_upload :: js_error + cloudinaryResult) = Inr r \<and>
      i_cloudinaryId sunset = r_public_id r \<and>
      images (snd (uploadImage (\<lambda>s. ''thumb:'' @ s) outdoor_created 200 10 (Inr sunset_upload)
                sunset_data 1)) = images outdoor_created @ [sunset]" .
  show ?thesis by (rule conjI [OF a conjI [OF b c]])
qed

subsection \<open>The image count of a category\<close>

lemma deleteImage_categories:
  "categories (snd (deleteImage st remote imageId)) = categories st"
  by (simp add: deleteImage_def Let_def split: option.splits)

lemma find_update_first_same:
  assumes "\<And>x. p x \<Longrightarrow> p (f x)"
  shows "find p (update_first p f xs) = map_option f (find p xs)"
  using assms by (induction xs) auto

lemma uploadImage_imageCount:
  assumes "fst (uploadImage g st now oid remote d cid) = Inr img"
    and "findCategoryById st cid = Some c"
  shows "findCategoryById (snd (uploadImage g st now oid remote d cid)) cid =
         Some (c\<lparr>c_imageCount := mongo_inc (c_imageCount c) 1, c_updatedAt := now\<rparr>)"
proof -
  from uploadImage_Inr [OF assms(1)] obtain r where r: "remote = Inr r" by blast
  have "find (\<lambda>c. c_id c = cid)
          (update_first (\<lambda>c. c_id c = cid)
             (\<lambda>c. c\<lparr>c_imageCount := mongo_inc (c_imageCount c) 1, c_updatedAt := now\<rparr>)
             (categories st)) =
        map_option (\<lambda>c. c\<lparr>c_imageCount := mongo_inc (c_imageCount c) 1, c_updatedAt := now\<rparr>)
          (find (\<lambda>c. c_id c = cid) (categories st))"
    by (rule find_update_first_same) simp
  with assms r show ?thesis
    by (auto simp: uploadImage_def Let_def Image_save_new_def imageSchema_pre_save_def
        inc_imageCount_def findCategoryById_def split: option.splits)
qed

text \<open>
  C2. The claim: after an image is created or deleted, the category's \<open>imageCount\<close> is the
  number of its active images; an upload adds one, a delete takes one away. In the
  scenario the upload takes the count of "Outdoor Venues" from 0 to 1, as claimed. The
  delete of the image, with the asset host answering, removes the document and leaves the
  count at 1 while the category has no image: \<open>findByIdAndDelete\<close> does not run the
  \<open>pre('remove')\<close> hook that would decrement it. (In general, an upload that succeeds
  increments the count of its category, and \<open>deleteImage\<close> changes no category at all: the
  two lemmas above.)
\<close>

theorem deleteImage_keeps_imageCount:
  "uploadImage (\<lambda>s. ''thumb:'' @ s) outdoor_created 200 10 (Inr sunset_upload) sunset_data 1
     = (Inr sunset, outdoor_uploaded) \<and>
   map c_imageCount (categories outdoor_uploaded) = [1] \<and>
   active_image_count outdoor_uploaded 1 = 1 \<and>
   deleteImage outdoor_uploaded None 10 =
     (Inr (''Sunset Shot'', ''marriage-hall/outdoor venues/200''), outdoor_deleted) \<and>
   map c_imageCount (categories outdoor_deleted) = [1] \<and>
   active_image_count outdoor_deleted 1 = 0"
  by (intro conjI uploadImage_sunset deleteImage_sunset)
     (simp_all add: outdoor_uploaded_def outdoor_deleted_def outdoor_def sunset_def
      active_image_count_def)

subsection \<open>Creating a category twice\<close>


lemma first_error_None: "first_error es = None \<Longrightarrow> e \<in> set es \<Longrightarrow> e = None"
  by (induction es rule: first_error.induct) auto




lemma createCategory_Inr:
  assumes "createCategory st now oid d = (Inr c, st')"
  shows "\<exists>n. cd_name d = Some n \<and> c_name c = trim n
           \<and> c_slug c = trim (toLowerCase (slug_of_name (trim n)))
           \<and> categoryData_validate d = None
           \<and> st' = st\<lparr>categories := categories st @ [c]\<rparr>"
  using assms
  by (auto simp: createCategory_def categorySchema_pre_save_def Let_def
      split: option.splits if_splits)













subsection \<open>The slug of a category\<close>

text \<open>
  The two replacements of the pre-save hook compute the transform as the specification
  words it, so a created category has the slug of its name; an update of the name or the
  description leaves every slug as stored.
\<close>

lemma map_of_zip_None:
  assumes "length xs = length ys" "map_of (zip xs ys) c = None"
  shows "c \<notin> set xs"
proof -
  from assms(2) have "c \<notin> set (map fst (zip xs ys))" by (simp add: map_of_eq_None_iff)
  with assms(1) show ?thesis by simp
qed

lemma map_of_zip_Some: "map_of (zip xs ys) c = Some l \<Longrightarrow> l \<in> set ys"
  by (auto dest: map_of_SomeD set_zip_rightD)

lemma toLowerChar_not_upper: "toLowerChar c \<notin> set ''ABCDEFGHIJKLMNOPQRSTUVWXYZ''"
proof (cases "digit7 c")
  case True
  define t where "t = map_of
             (zip [CHR 0xC0, CHR 0xC1, CHR 0xC2, CHR 0xC3, CHR 0xC4, CHR 0xC5, CHR 0xC6,
                        CHR 0xC7, CHR 0xC8, CHR 0xC9, CHR 0xCA, CHR 0xCB, CHR 0xCC, CHR 0xCD,
                        CHR 0xCE, CHR 0xCF, CHR 0xD0, CHR 0xD1, CHR 0xD2, CHR 0xD3, CHR 0xD4,
                        CHR 0xD5, CHR 0xD6, CHR 0xD8, CHR 0xD9, CHR 0xDA, CHR 0xDB, CHR 0xDC,
                        CHR 0xDD, CHR 0xDE]
                       [CHR 0xE0, CHR 0xE1, CHR 0xE2, CHR 0xE3, CHR 0xE4, CHR 0xE5, CHR 0xE6,
                        CHR 0xE7, CHR 0xE8, CHR 0xE9, CHR 0xEA, CHR 0xEB, CHR 0xEC, CHR 0xED,
                        CHR 0xEE, CHR 0xEF, CHR 0xF0, CHR 0xF1, CHR 0xF2, CHR 0xF3, CHR 0xF4,
                        CHR 0xF5, CHR 0xF6, CHR 0xF8, CHR 0xF9, CHR 0xFA, CHR 0xFB, CHR 0xFC,
                        CHR 0xFD, CHR 0xFE]) c"
  have eq: "toLowerChar c = (case t of Some l \<Rightarrow> l | None \<Rightarrow> c)"
    unfolding toLowerChar_def t_def using True by (simp only: if_True)
  have "digit7 (toLowerChar c)"
  proof (cases t)
    case None
    with eq True show ?thesis by simp
  next
    case (Some l)
    then have "l \<in> set [CHR 0xE0, CHR 0xE1, CHR 0xE2, CHR 0xE3, CHR 0xE4, CHR 0xE5, CHR 0xE6,
                        CHR 0xE7, CHR 0xE8, CHR 0xE9, CHR 0xEA, CHR 0xEB, CHR 0xEC, CHR 0xED,
                        CHR 0xEE, CHR 0xEF, CHR 0xF0, CHR 0xF1, CHR 0xF2, CHR 0xF3, CHR 0xF4,
                        CHR 0xF5, CHR 0xF6, CHR 0xF8, CHR 0xF9, CHR 0xFA, CHR 0xFB, CHR 0xFC,
                        CHR 0xFD, CHR 0xFE]"
      unfolding t_def by (rule map_of_zip_Some)
    then have "digit7 l" by (simp, elim disjE; simp)
    with eq Some show ?thesis by simp
  qed
  moreover have "\<forall>u \<in> set ''ABCDEFGHIJKLMNOPQRSTUVWXYZ''. \<not> digit7 u" by simp
  ultimately show ?thesis by blast
next
  case False
  define t where "t = map_of (zip ''ABCDEFGHIJKLMNOPQRSTUVWXYZ'' ''abcdefghijklmnopqrstuvwxyz'') c"
  have eq: "toLowerChar c = (case t of Some l \<Rightarrow> l | None \<Rightarrow> c)"
    unfolding toLowerChar_def t_def using False by (simp only: if_False)
  show ?thesis
  proof (cases t)
    case None
    then have m: "map_of (zip ''ABCDEFGHIJKLMNOPQRSTUVWXYZ'' ''abcdefghijklmnopqrstuvwxyz'') c = None"
      by (simp only: t_def)
    have "length ''ABCDEFGHIJKLMNOPQRSTUVWXYZ'' = length ''abcdefghijklmnopqrstuvwxyz''" by simp
    from map_of_zip_None [OF this m] eq None show ?thesis by simp
  next
    case (Some l)
    then have "l \<in> set ''abcdefghijklmnopqrstuvwxyz''"
      unfolding t_def by (rule map_of_zip_Some)
    then have "l \<notin> set ''ABCDEFGHIJKLMNOPQRSTUVWXYZ''" by (simp, elim disjE; simp)
    with eq Some show ?thesis by simp
  qed
qed

lemma alphanumeric_lower:
  "is_alphanumeric (toLowerChar c) = is_lower_alnum (toLowerChar c)"
  unfolding is_alphanumeric_def is_lower_alnum_def
  using toLowerChar_not_upper [of c] by blast

lemma hyphen_not_alnum: "\<not> is_lower_alnum (CHR ''-'')"
  by (simp add: is_lower_alnum_def)

lemma replace_runs_True:
  "replace_runs True cs = replace_runs False (dropWhile (\<lambda>d. \<not> is_lower_alnum d) cs)"
  by (induction cs) auto

lemma replace_runs_not_alnum:
  "\<not> is_lower_alnum c \<Longrightarrow>
   replace_runs False (c # cs) =
     CHR ''-'' # replace_runs False (dropWhile (\<lambda>d. \<not> is_lower_alnum d) cs)"
  by (simp add: replace_runs_True)

lemma hyphenate_runs_replace_runs:
  assumes "\<forall>c \<in> set s. is_alphanumeric c = is_lower_alnum c"
  shows "hyphenate_runs s = replace_runs False s"
  using assms
proof (induction s rule: hyphenate_runs.induct)
  case 1
  then show ?case by simp
next
  case (2 c cs)
  from "2.prems" have c: "is_alphanumeric c = is_lower_alnum c"
    and cs: "\<forall>d \<in> set cs. is_alphanumeric d = is_lower_alnum d" by simp_all
  show ?case
  proof (cases "is_alphanumeric c")
    case True
    with "2.IH"(1) cs have "hyphenate_runs cs = replace_runs False cs" by blast
    with True c show ?thesis by simp
  next
    case False
    let ?rest = "dropWhile (\<lambda>d. \<not> is_alphanumeric d) cs"
    have eq: "?rest = dropWhile (\<lambda>d. \<not> is_lower_alnum d) cs"
      using cs by (intro dropWhile_cong) simp_all
    have "set ?rest \<subseteq> set cs" by (rule set_dropWhileD [THEN subsetI])
    with cs have "\<forall>d \<in> set ?rest. is_alphanumeric d = is_lower_alnum d" by blast
    with "2.IH"(2) False have ih: "hyphenate_runs ?rest = replace_runs False ?rest" by blast
    from False c have nc: "\<not> is_lower_alnum c" by simp
    have "hyphenate_runs (c # cs) = CHR ''-'' # hyphenate_runs ?rest"
      using False by simp
    also have "\<dots> = CHR ''-'' # replace_runs False ?rest" by (simp only: ih)
    also have "\<dots> = replace_runs False (c # cs)"
      by (simp only: eq replace_runs_not_alnum [OF nc])
    finally show ?thesis .
  qed
qed

lemma replace_runs_shape:
  "no_double_hyphen (replace_runs f s) \<and>
   (f \<longrightarrow> replace_runs f s = [] \<or> hd (replace_runs f s) \<noteq> CHR ''-'')"
proof (induction s arbitrary: f)
  case Nil
  then show ?case by simp
next
  case (Cons c cs)
  show ?case
  proof (cases "is_lower_alnum c")
    case True
    then have "c \<noteq> CHR ''-''" using hyphen_not_alnum by auto
    with True Cons [of False] show ?thesis
      by (cases "replace_runs False cs") auto
  next
    case False
    with Cons [of True] show ?thesis
      by (cases "replace_runs True cs") auto
  qed
qed

lemma no_double_hyphen_tl: "no_double_hyphen t \<Longrightarrow> no_double_hyphen (tl t)"
  by (induction t rule: no_double_hyphen.induct) auto

lemma no_double_hyphen_front:
  "no_double_hyphen t \<Longrightarrow>
   dropWhile (\<lambda>c. c = CHR ''-'') t =
     (case t of [] \<Rightarrow> [] | c # cs \<Rightarrow> if c = CHR ''-'' then cs else t)"
  by (induction t rule: no_double_hyphen.induct) auto

lemma no_double_hyphen_last:
  "no_double_hyphen t \<Longrightarrow> t \<noteq> [] \<Longrightarrow> last t = CHR ''-'' \<Longrightarrow>
   butlast t = [] \<or> last (butlast t) \<noteq> CHR ''-''"
  by (induction t rule: no_double_hyphen.induct) (auto split: if_splits)

lemma dropWhile_hd: "t \<noteq> [] \<Longrightarrow> \<not> p (hd t) \<Longrightarrow> dropWhile p t = t"
  by (cases t) auto

lemma no_double_hyphen_back:
  assumes "no_double_hyphen t"
  shows "rev (dropWhile (\<lambda>c. c = CHR ''-'') (rev t)) =
         (if t \<noteq> [] \<and> last t = CHR ''-'' then butlast t else t)"
proof (cases "t \<noteq> [] \<and> last t = CHR ''-''")
  case True
  then have t: "t = butlast t @ [CHR ''-'']" by (metis append_butlast_last_id)
  from no_double_hyphen_last [OF assms] True
  have b: "butlast t = [] \<or> last (butlast t) \<noteq> CHR ''-''" by simp
  have "rev t = CHR ''-'' # rev (butlast t)" by (subst t) simp
  then have "dropWhile (\<lambda>c. c = CHR ''-'') (rev t) =
      dropWhile (\<lambda>c. c = CHR ''-'') (CHR ''-'' # rev (butlast t))"
    by (rule arg_cong)
  also have "\<dots> = dropWhile (\<lambda>c. c = CHR ''-'') (rev (butlast t))"
    by simp
  also have "\<dots> = rev (butlast t)"
  proof (cases "butlast t = []")
    case True
    then show ?thesis by simp
  next
    case False
    with b have "hd (rev (butlast t)) \<noteq> CHR ''-''" by (simp add: hd_rev)
    with False show ?thesis by (intro dropWhile_hd) auto
  qed
  finally show ?thesis using True by simp
next
  case False
  show ?thesis
  proof (cases "t = []")
    case True
    then show ?thesis by simp
  next
    case nonempty: False
    with False have "hd (rev t) \<noteq> CHR ''-''" by (simp add: hd_rev)
    with nonempty have "dropWhile (\<lambda>c. c = CHR ''-'') (rev t) = rev t"
      by (intro dropWhile_hd) auto
    with False show ?thesis by auto
  qed
qed

lemma replace_edge_hyphens_strip:
  assumes "no_double_hyphen t"
  shows "replace_edge_hyphens t = strip_hyphens t"
proof -
  let ?s1 = "case t of [] \<Rightarrow> [] | c # cs \<Rightarrow> if c = CHR ''-'' then cs else t"
  have front: "dropWhile (\<lambda>c. c = CHR ''-'') t = ?s1"
    using assms by (rule no_double_hyphen_front)
  have "no_double_hyphen ?s1"
    using assms no_double_hyphen_tl [OF assms] by (cases t) auto
  then have "rev (dropWhile (\<lambda>c. c = CHR ''-'') (rev ?s1)) =
         (if ?s1 \<noteq> [] \<and> last ?s1 = CHR ''-'' then butlast ?s1 else ?s1)"
    by (rule no_double_hyphen_back)
  then show ?thesis
    unfolding strip_hyphens_def replace_edge_hyphens_def Let_def front by simp
qed

lemma slug_of_name_spec_slug: "slug_of_name name = spec_slug name"
proof -
  have "\<forall>c \<in> set (toLowerCase name). is_alphanumeric c = is_lower_alnum c"
    by (auto simp: toLowerCase_def alphanumeric_lower)
  then have "hyphenate_runs (toLowerCase name) = replace_runs False (toLowerCase name)"
    by (rule hyphenate_runs_replace_runs)
  moreover have "no_double_hyphen (replace_runs False (toLowerCase name))"
    using replace_runs_shape [of False] by simp
  ultimately show ?thesis
    by (simp add: slug_of_name_def spec_slug_def replace_edge_hyphens_strip)
qed

lemma map_slug_update_first:
  assumes "\<And>x. c_slug (f x) = c_slug x"
  shows "map c_slug (update_first p f xs) = map c_slug xs"
  using assms by (induction xs) auto

lemma updateCategory_slugs:
  "map c_slug (categories (snd (updateCategory st now categoryId updateData))) =
   map c_slug (categories st)"
proof -
  have "\<And>u x. c_slug (apply_categoryUpdate now u x) = c_slug x"
    by (simp add: apply_categoryUpdate_def)
  then show ?thesis
    by (simp add: updateCategory_def Let_def map_slug_update_first split: option.splits)
qed

lemma replace_runs_chars:
  "c \<in> set (replace_runs f s) \<Longrightarrow> is_lower_alnum c \<or> c = CHR ''-''"
  by (induction s arbitrary: f) (auto split: if_splits)

lemma slug_of_name_chars:
  assumes "c \<in> set (slug_of_name name)"
  shows "is_lower_alnum c \<or> c = CHR ''-''"
proof -
  let ?t = "replace_runs False (toLowerCase name)"
  have "set (replace_edge_hyphens ?t) \<subseteq> set ?t"
    by (cases ?t) (auto simp: replace_edge_hyphens_def Let_def dest: in_set_butlastD)
  with assms have "c \<in> set ?t" by (auto simp: slug_of_name_def)
  then show ?thesis by (rule replace_runs_chars)
qed

lemma toLowerChar_slug_char:
  "is_lower_alnum c \<or> c = CHR ''-'' \<Longrightarrow> toLowerChar c = c"
  unfolding is_lower_alnum_def
  by (simp, elim disjE; simp add: toLowerChar_def)

lemma not_white_slug_char:
  "is_lower_alnum c \<or> c = CHR ''-'' \<Longrightarrow> \<not> is_white c"
  unfolding is_lower_alnum_def
  by (simp, elim disjE; simp add: is_white_def)

lemma dropWhile_none: "\<forall>c \<in> set s. \<not> p c \<Longrightarrow> dropWhile p s = s"
  by (cases s) auto

lemma slug_setters_id: "trim (toLowerCase (slug_of_name name)) = slug_of_name name"
proof -
  have chars: "\<forall>c \<in> set (slug_of_name name). is_lower_alnum c \<or> c = CHR ''-''"
    using slug_of_name_chars by blast
  then have "toLowerCase (slug_of_name name) = slug_of_name name"
    by (simp add: toLowerCase_def toLowerChar_slug_char map_idI)
  moreover have "trim (slug_of_name name) = slug_of_name name"
  proof -
    have nw: "\<forall>c \<in> set (slug_of_name name). \<not> is_white c"
      using chars not_white_slug_char by blast
    then have "dropWhile is_white (slug_of_name name) = slug_of_name name"
      by (rule dropWhile_none)
    moreover from nw have "dropWhile is_white (rev (slug_of_name name)) = rev (slug_of_name name)"
      by (intro dropWhile_none) simp
    ultimately show ?thesis by (simp add: trim_def)
  qed
  ultimately show ?thesis by simp
qed

lemma createCategory_slug:
  assumes "createCategory st now oid categoryData = (Inr c, st')"
  shows "c_slug c = spec_slug (c_name c)"
proof -
  from createCategory_Inr [OF assms] obtain n where
    "c_name c = trim n" "c_slug c = trim (toLowerCase (slug_of_name (trim n)))" by blast
  then have "c_slug c = slug_of_name (c_name c)" by (simp add: slug_setters_id)
  then show ?thesis by (simp add: slug_of_name_spec_slug)
qed

text \<open>
  C5. The claim: after every update that changes the name, the stored slug is the
  transform of the current name. \<open>updateCategory\<close> renames "Outdoor Venues" to
  "Garden Room": the stored name changes and the stored slug stays \<open>outdoor-venues\<close>, while
  the transform of the new name is \<open>garden-room\<close>. (After a create the slug is the transform
  of the stored name, and an update of the name or the description changes no slug:
  \<open>createCategory_slug\<close> and \<open>updateCategory_slugs\<close> above.)
\<close>

theorem updateCategory_keeps_slug:
  "updateCategory outdoor_created 300 1 \<lparr>cu_name = Some ''Garden Room'', cu_description = None\<rparr>
     = (Inr (outdoor\<lparr>c_name := ''Garden Room'', c_updatedAt := 300\<rparr>),
        outdoor_created\<lparr>categories := [outdoor\<lparr>c_name := ''Garden Room'', c_updatedAt := 300\<rparr>]\<rparr>) \<and>
   c_slug (outdoor\<lparr>c_name := ''Garden Room'', c_updatedAt := 300\<rparr>) = ''outdoor-venues'' \<and>
   slug_of_name ''Garden Room'' = ''garden-room''"
  by (simp add: updateCategory_def outdoor_created_def outdoor_def Let_def
      categoryUpdate_validate_def findCategoryById_def apply_categoryUpdate_def trim_def
      is_white_def slug_of_name_def toLowerCase_def toLowerChar_def is_lower_alnum_def
      replace_edge_hyphens_def)

subsection \<open>Images by category name\<close>

lemma findByCategoryName_images:
  assumes "findByCategoryName rx st categoryName limit = Inr r"
  shows "map fst r =
         (case limit of
            None \<Rightarrow> sort_by_key i_createdAt True (filter i_isActive (images st))
          | Some l \<Rightarrow>
              if l = 0 then sort_by_key i_createdAt True (filter i_isActive (images st))
              else mongo_limit l (sort_by_key i_createdAt True (filter i_isActive (images st))))"
  using assms
  by (auto simp: findByCategoryName_def Let_def comp_def split: option.splits)

text \<open>
  C6. The claim: \<open>getImagesByCategory\<close> returns the active images of the categories whose
  name matches, and no image of another category. Asked for "hall" with no limit, on the
  categories "hall" and "garden" with one active image each, it returns both images, the
  newest first: the image of "garden" is in the result, with its \<open>category\<close> field null.
  (In general the images returned are the newest active images of the whole collection, up
  to the limit, whatever the name: the lemma above.)
\<close>

theorem getImagesByCategory_returns_other_category:
  "getImagesByCategory dot_regexp hall_and_garden ''hall'' None =
     Inr [(example_image 11 2 ''Roses'' 6, None),
          (example_image 10 1 ''Stage'' 5, Some (example_category 1 ''hall'' ''hall'' 1))]"
  by (simp add: getImagesByCategory_def findByCategoryName_def dot_regexp_def hall_and_garden_def
      sort_by_key_def example_image_def example_category_def findCategoryById_def Let_def
      is_lower_alnum_def toLowerChar_def)

subsection \<open>The size of a page\<close>

lemma length_sort_by_key: "length (sort_by_key f d xs) = length xs"
  by (simp add: sort_by_key_def)

lemma length_sort_images: "sort_images k d xs = Inr ys \<Longrightarrow> length ys = length xs"
  by (auto simp: sort_images_def length_sort_by_key split: if_splits)

lemma sort_images_createdAt:
  "sort_images ''createdAt'' d xs = Inr (sort_by_key i_createdAt d xs)"
  by (simp add: sort_images_def sort_key_rejected_def)

lemma parseInt_500: "parseInt ''500'' = Some 500"
  by (simp add: parseInt_def is_white_def digit_value_def toLowerChar_def Let_def
      to_double_small)

lemma many_images_active: "filter i_isActive (images many_images) = images many_images"
  by (simp add: many_images_def example_image_def)

lemma many_images_length: "length (images many_images) = 101"
  by (simp add: many_images_def)

text \<open>
  C7. The claim: page and limit default to 1 and 20, and a limit above 100 is capped at
  100, so no list response has more than 100 records. The defaults hold: a request with
  no parameters is answered with page 1 and limit 20. The cap does not: on a store with
  101 active images, \<open>GET /images?limit=500\<close> is answered with status 200 and 101 records.
\<close>

theorem GET_images_limit_500_returns_101:
  "map_option (\<lambda>r. (p_page (snd r), p_limit (snd r)))
     (res_data (GET_images dot_regexp False many_images no_parameters)) = Some (1, 20) \<and>
   res_status (GET_images dot_regexp False many_images limit_500) = 200 \<and>
   map_option (\<lambda>r. length (fst r))
     (res_data (GET_images dot_regexp False many_images limit_500)) = Some 101"
  by (simp add: GET_images_def limit_500_def no_parameters_def parseInt_or_def parseInt_500
      string_or_def getAllImages_def image_query_def Let_def many_images_active
      many_images_length mongo_limit_def sort_images_createdAt length_sort_by_key)

subsection \<open>Reading an image by id\<close>



lemma find_Some_set: "find p xs = Some a \<Longrightarrow> a \<in> set xs \<and> p a"
  by (induction xs) (auto split: if_splits)

lemma set_delete_first: "set (delete_first p xs) \<subseteq> set xs"
  by (induction xs) auto







lemma incrementViewCount_rejected:
  assumes "imageSchema_validate (img\<lparr>i_viewCount := js_add (i_viewCount img) 1\<rparr>) = Some e"
  shows "incrementViewCount st now img = (Inl e, st)"
  using assms by (simp add: incrementViewCount_def Let_def)

lemma findImageById_id: "findImageById st iid = Some img \<Longrightarrow> i_id img = iid"
  by (auto simp: findImageById_def dest: find_Some_set)








text \<open>What each operation does to the image collection.\<close>

lemma images_createCategory: "images (snd (createCategory st now oid d)) = images st"
  by (simp add: createCategory_def categorySchema_pre_save_def Let_def split: option.splits)

lemma images_updateCategory: "images (snd (updateCategory st now cid u)) = images st"
  by (simp add: updateCategory_def Let_def split: option.splits)




lemma images_incrementViewCount:
  "images (snd (incrementViewCount st now img)) = images st \<or>
   images (snd (incrementViewCount st now img)) =
     update_first (\<lambda>i. i_id i = i_id img)
       (\<lambda>i. i\<lparr>i_viewCount := js_add (i_viewCount img) 1, i_updatedAt := now\<rparr>) (images st)"
  by (simp add: incrementViewCount_def Let_def imageSchema_pre_save_def split: option.splits)

lemma images_getImageById:
  "images (snd (getImageById st now iid)) = images st \<or>
   (\<exists>img. findImageById st iid = Some img \<and>
      images (snd (getImageById st now iid)) =
        update_first (\<lambda>i. i_id i = iid)
          (\<lambda>i. i\<lparr>i_viewCount := js_add (i_viewCount img) 1, i_updatedAt := now\<rparr>) (images st))"
proof (cases "findImageById st iid")
  case None
  then show ?thesis by (simp add: getImageById_def)
next
  case (Some img)
  then have id: "i_id img = iid" by (rule findImageById_id)
  have "images (snd (getImageById st now iid)) = images (snd (incrementViewCount st now img))"
    using Some by (simp add: getImageById_def Let_def split: prod.splits sum.splits)
  with images_incrementViewCount [of st now img] Some id show ?thesis by auto
qed

lemma images_updateImage:
  "images (snd (updateImage st now iid u)) = images st \<or>
   (\<exists>u'. images (snd (updateImage st now iid u)) =
        update_first (\<lambda>i. i_id i = iid) (apply_imageUpdate now u') (images st))"
  by (auto simp: updateImage_def Let_def split: option.splits)











subsection \<open>What every reachable store satisfies\<close>

text \<open>
  The ids of the stored images are distinct: this holds of the empty store and each of
  the operations above keeps it, so it holds after any sequence of them. It is the
  hypothesis on the store in the theorems on reading an image by id.
\<close>

lemma map_id_update_first:
  assumes "\<And>x. i_id (f x) = i_id x"
  shows "map i_id (update_first p f xs) = map i_id xs"
  using assms by (induction xs) auto

lemma distinct_delete_first:
  "distinct (map i_id xs) \<Longrightarrow> distinct (map i_id (delete_first p xs))"
proof (induction xs)
  case Nil
  then show ?case by simp
next
  case (Cons x xs)
  have "set (delete_first p xs) \<subseteq> set xs" by (rule set_delete_first)
  with Cons show ?case by auto
qed

lemma store_ok_empty: "store_ok empty_state"
  by (simp add: store_ok_def empty_state_def)

lemma store_ok_same_images: "images st' = images st \<Longrightarrow> store_ok st \<Longrightarrow> store_ok st'"
  by (simp add: store_ok_def)

lemma store_ok_deleteCategory: "store_ok st \<Longrightarrow> store_ok (snd (deleteCategory st cid))"
  by (auto simp: store_ok_def deleteCategory_def Let_def distinct_map_filter
      split: option.splits)

lemma store_ok_deleteImage: "store_ok st \<Longrightarrow> store_ok (snd (deleteImage st remote iid))"
  by (auto simp: store_ok_def deleteImage_def Let_def distinct_delete_first
      split: option.splits)

lemma store_ok_getImageById: "store_ok st \<Longrightarrow> store_ok (snd (getImageById st now iid))"
proof -
  assume ok: "store_ok st"
  from images_getImageById [of st now iid]
  show ?thesis
  proof
    assume "images (snd (getImageById st now iid)) = images st"
    then show ?thesis using ok by (rule store_ok_same_images)
  next
    assume "\<exists>img. findImageById st iid = Some img \<and>
      images (snd (getImageById st now iid)) =
        update_first (\<lambda>i. i_id i = iid)
          (\<lambda>i. i\<lparr>i_viewCount := js_add (i_viewCount img) 1, i_updatedAt := now\<rparr>) (images st)"
    then obtain img :: image where im: "images (snd (getImageById st now iid)) =
        update_first (\<lambda>i. i_id i = iid)
          (\<lambda>i. i\<lparr>i_viewCount := js_add (i_viewCount img) 1, i_updatedAt := now\<rparr>) (images st)"
      by blast
    have "map i_id (images (snd (getImageById st now iid))) = map i_id (images st)"
      unfolding im by (rule map_id_update_first) simp
    then show ?thesis using ok by (simp add: store_ok_def)
  qed
qed

lemma store_ok_updateImage: "store_ok st \<Longrightarrow> store_ok (snd (updateImage st now iid u))"
proof -
  assume ok: "store_ok st"
  from images_updateImage [of st now iid u]
  show ?thesis
  proof
    assume "images (snd (updateImage st now iid u)) = images st"
    then show ?thesis using ok by (rule store_ok_same_images)
  next
    assume "\<exists>u'. images (snd (updateImage st now iid u)) =
        update_first (\<lambda>i. i_id i = iid) (apply_imageUpdate now u') (images st)"
    then obtain u' where im: "images (snd (updateImage st now iid u)) =
        update_first (\<lambda>i. i_id i = iid) (apply_imageUpdate now u') (images st)"
      by blast
    have "map i_id (images (snd (updateImage st now iid u))) = map i_id (images st)"
      unfolding im by (rule map_id_update_first) (simp add: apply_imageUpdate_def)
    then show ?thesis using ok by (simp add: store_ok_def)
  qed
qed

lemma store_ok_Image_save_new:
  assumes "store_ok st"
  shows "store_ok (snd (Image_save_new st now img))"
proof (cases "imageSchema_validate img")
  case (Some e)
  with assms show ?thesis by (simp add: Image_save_new_def)
next
  case None
  let ?st1 = "imageSchema_pre_save now True False img st"
  have ok1: "store_ok ?st1" using assms by (simp add: store_ok_def images_pre_save)
  show ?thesis
  proof (cases "image_unique_violation (images ?st1) img")
    case (Some e)
    with None ok1 show ?thesis by (simp add: Image_save_new_def Let_def)
  next
    case nv: None
    then have "i_id img \<notin> set (map i_id (images ?st1))"
      by (auto simp: image_unique_violation_def split: if_splits)
    with None nv ok1 show ?thesis
      by (simp add: Image_save_new_def Let_def store_ok_def)
  qed
qed

lemma store_ok_uploadImage:
  assumes "store_ok st"
  shows "store_ok (snd (uploadImage g st now oid remote d cid))"
proof (cases "findCategoryById st cid")
  case None
  with assms show ?thesis by (simp add: uploadImage_def)
next
  case (Some c)
  let ?st1 = "st\<lparr>cloudinary_calls := cloudinary_calls st @
                        [Upload (''marriage-hall/'' @ toLowerCase (c_name c) @ ''/'' @
                                 string_of_nat now)]\<rparr>"
  have ok1: "store_ok ?st1" using assms by (simp add: store_ok_def)
  show ?thesis
  proof (cases remote)
    case (Inl e)
    with Some ok1 show ?thesis by (simp add: uploadImage_def Let_def)
  next
    case (Inr r)
    with Some show ?thesis
      using store_ok_Image_save_new [OF ok1]
      by (simp add: uploadImage_def Let_def)
  qed
qed

lemma store_ok_step: "store_ok st \<Longrightarrow> store_ok (step g st op)"
proof (cases op)
  case (CreateCategory now oid d)
  assume "store_ok st"
  with CreateCategory show ?thesis
    by (simp add: store_ok_same_images [OF images_createCategory])
next
  case (UpdateCategory now cid u)
  assume "store_ok st"
  with UpdateCategory show ?thesis
    by (simp add: store_ok_same_images [OF images_updateCategory])
next
  case (DeleteCategory cid)
  assume "store_ok st"
  with DeleteCategory show ?thesis by (simp add: store_ok_deleteCategory)
next
  case (UploadImage now oid remote d cid)
  assume "store_ok st"
  with UploadImage show ?thesis by (simp add: store_ok_uploadImage)
next
  case (GetImageById now iid)
  assume "store_ok st"
  with GetImageById show ?thesis by (simp add: store_ok_getImageById)
next
  case (UpdateImage now iid u)
  assume "store_ok st"
  with UpdateImage show ?thesis by (simp add: store_ok_updateImage)
next
  case (DeleteImage remote iid)
  assume "store_ok st"
  with DeleteImage show ?thesis by (simp add: store_ok_deleteImage)
qed

lemma store_ok_steps: "store_ok st \<Longrightarrow> store_ok (steps g st ops)"
  by (induction ops arbitrary: st) (auto simp: store_ok_step)

lemma store_ok_reachable: "store_ok (steps g empty_state ops)"
  by (rule store_ok_steps [OF store_ok_empty])

subsection \<open>Inactive images\<close>















subsection \<open>Search terms are patterns\<close>

lemma dot_regexp_h_ll: "dot_regexp ''h.ll'' = Some (matches_anywhere ''h.ll'')"
  by (simp add: dot_regexp_def is_lower_alnum_def toLowerChar_def)

lemma hall_before_lawn: "(''hall'' :: string) \<le> ''lawn'' \<and> \<not> (''lawn'' :: string) \<le> ''hall''"
  by (simp add: less_eq_char_def less_char_def)

text \<open>
  C10. The category search, the image search and the lookup of a category by name read
  the term as a regular expression. Take any engine that compiles the term \<open>h.ll\<close> and
  whose matcher for it accepts and rejects the strings of the store as a dot that stands
  for any character does. Then the category search returns the active categories "hall"
  and "lawn", the one for its name and the other for its description, and not "garden";
  the lookup by name returns "hall", the first active category whose name matches; and the
  image search returns the three active images that match by title, description or tag,
  the newest first, and not the fourth. None of the strings that match contains \<open>h.ll\<close>
  literally.
\<close>

theorem search_term_is_a_pattern:
  assumes "rx ''h.ll'' = Some m"
    and "\<forall>s \<in> set h_ll_matches. m s" "\<forall>s \<in> set h_ll_misses. \<not> m s"
  shows "searchCategories rx search_store ''h.ll'' =
           Inr [example_category 1 ''hall'' ''hall'' 2, lawn] \<and>
         getCategoryByName rx search_store ''h.ll'' =
           Inr (example_category 1 ''hall'' ''hall'' 2) \<and>
         map_sum id (\<lambda>r. map fst (fst r)) (searchImages rx search_store ''h.ll'' no_options) =
           Inr [roses, stage, example_image 12 1 ''Hill view'' 7] \<and>
         \<not> list_ex (contains_literally ''h.ll'') h_ll_matches"
proof (intro conjI)
  from assms(2,3) have m:
    "m ''hall''" "m ''hill''" "m ''near the hill''" "m ''Hill view''" "m ''Great hall''"
    "m ''hilltop''" "m ''Hall door''" "\<not> m ''lawn''" "\<not> m ''garden''" "\<not> m ''Stage''"
    "\<not> m ''Roses''" "\<not> m ''Fountain''" "\<not> m ''Evening light''" "\<not> m ''red''" "\<not> m ''dusk''"
    by (simp_all add: h_ll_matches_def h_ll_misses_def)
  show "searchCategories rx search_store ''h.ll'' =
           Inr [example_category 1 ''hall'' ''hall'' 2, lawn]"
    using assms(1) m hall_before_lawn
    by (simp add: searchCategories_def search_store_def lawn_def closed_hill_def
        example_category_def)
  show "getCategoryByName rx search_store ''h.ll'' =
           Inr (example_category 1 ''hall'' ''hall'' 2)"
    using assms(1) m
    by (simp add: getCategoryByName_def search_store_def lawn_def closed_hill_def
        example_category_def)
  show "map_sum id (\<lambda>r. map fst (fst r)) (searchImages rx search_store ''h.ll'' no_options) =
           Inr [roses, stage, example_image 12 1 ''Hill view'' 7]"
    using assms(1) m
    by (simp add: searchImages_def getAllImages_def image_query_def search_matches_def
        search_store_def stage_def roses_def fountain_def hall_door_def no_options_def
        example_image_def Let_def mongo_limit_def sort_images_createdAt sort_by_key_def
        comp_def)
  show "\<not> list_ex (contains_literally ''h.ll'') h_ll_matches"
    by (simp add: h_ll_matches_def toLowerChar_def)
qed

text \<open>The theorem for the engine \<open>dot_regexp\<close>.\<close>

theorem search_term_is_a_pattern_witness:
  "searchCategories dot_regexp search_store ''h.ll'' =
     Inr [example_category 1 ''hall'' ''hall'' 2, lawn] \<and>
   getCategoryByName dot_regexp search_store ''h.ll'' =
     Inr (example_category 1 ''hall'' ''hall'' 2) \<and>
   map_sum id (\<lambda>r. map fst (fst r)) (searchImages dot_regexp search_store ''h.ll'' no_options) =
     Inr [roses, stage, example_image 12 1 ''Hill view'' 7] \<and>
   \<not> list_ex (contains_literally ''h.ll'') h_ll_matches"
proof -
  have a: "\<forall>s \<in> set h_ll_matches. matches_anywhere ''h.ll'' s"
    by (simp add: h_ll_matches_def toLowerChar_def)
  have b: "\<forall>s \<in> set h_ll_misses. \<not> matches_anywhere ''h.ll'' s"
    by (simp add: h_ll_misses_def toLowerChar_def)
  show ?thesis
    by (rule search_term_is_a_pattern [where rx = dot_regexp and m = "matches_anywhere ''h.ll''",
          OF dot_regexp_h_ll a b])
qed

end
